theory Spec2Isabelle
  imports Main "HOL-Library.Log_Nat"
begin

section \<open>Task Manager API: the request handlers of \<open>main.py\<close>\<close>

text \<open>
  The handlers of \<open>main.py\<close> are modelled as functions on an explicit state: the
  entries of the process-wide \<open>cache_service\<close> and the log of the calls made to
  \<open>n8n_service.send_message\<close>. The remote agent is a parameter of every handler. An
  \<open>HTTPException\<close> is the \<open>Inl\<close> side of the result. Logging and the \<open>timestamp\<close>
  field of the responses (a reading of the clock that no handler inspects) are left out.
  Requests are handled one after the other; nothing here speaks about interleavings.
\<close>

subsection \<open>Values\<close>

text \<open>Scalar JSON values as they occur inside a task or a response body.\<close>

datatype jval = JNull | JBool bool | JInt int | JStr string

text \<open>A task is a Python \<open>dict\<close>; \<open>t.get(k)\<close> is \<open>dict_get t k\<close>.\<close>

type_synonym task = "(string \<times> jval) list"

definition dict_get :: "task \<Rightarrow> string \<Rightarrow> jval option" where
  "dict_get t k = map_of t k"

text \<open>
  The JSON object returned by the remote agent: its \<open>"tasks"\<close> entry when there is one
  (expected to be a list of task objects), and its other entries.
\<close>

record response =
  tasks_field :: "task list option"
  other_fields :: "(string \<times> jval) list"

text \<open>\<open>response.get("tasks", [])\<close>\<close>

definition get_tasks_or_empty :: "response \<Rightarrow> task list" where
  "get_tasks_or_empty r = (case tasks_field r of Some ts \<Rightarrow> ts | None \<Rightarrow> [])"

text \<open>\<open>HTTPException(status_code, detail)\<close>\<close>

datatype http_exception = HTTPException nat string

text \<open>Truth value of an \<open>Optional[str]\<close>: \<open>None\<close> and the empty string are false.\<close>

fun truthy :: "string option \<Rightarrow> bool" where
  "truthy None = False"
| "truthy (Some s) = (s \<noteq> [])"

text \<open>Truth value of what \<open>cache_service.get\<close> returns: \<open>None\<close> and \<open>[]\<close> are false.\<close>

fun truthy_tasks :: "task list option \<Rightarrow> bool" where
  "truthy_tasks None = False"
| "truthy_tasks (Some ts) = (ts \<noteq> [])"

subsection \<open>Cache store\<close>

text \<open>
  Modelled from the spec: \<open>CacheService\<close> (module \<open>services/cache_service.py\<close>) is
  imported by \<open>main.py\<close> but is not among the sources. Section 4.1 of the specification
  gives its contract: \<open>set\<close> stores the value with \<open>expires_at = now + ttl\<close> and overwrites;
  \<open>get\<close> returns the value if present and \<open>now < expires_at\<close>, otherwise absent, and may
  evict the stale entry (the flag \<open>evict\<close> says whether this store does); \<open>delete\<close>
  removes the entry if present; \<open>clear\<close> removes all entries. Time is a count of
  microseconds, the resolution of \<open>datetime\<close>; \<open>ttl\<close> is in seconds.
\<close>

type_synonym time = int

type_synonym cache_store = "string \<rightharpoonup> (task list \<times> time)"

definition cache_set :: "string \<Rightarrow> task list \<Rightarrow> int \<Rightarrow> time \<Rightarrow> cache_store \<Rightarrow> cache_store" where
  "cache_set key v ttl now c = c(key \<mapsto> (v, now + ttl * 1000000))"

definition cache_get :: "bool \<Rightarrow> string \<Rightarrow> time \<Rightarrow> cache_store \<Rightarrow> task list option \<times> cache_store" where
  "cache_get evict key now c =
     (case c key of
        None \<Rightarrow> (None, c)
      | Some (v, expires_at) \<Rightarrow>
          if now < expires_at then (Some v, c)
          else (None, if evict then c(key := None) else c))"

definition cache_delete :: "string \<Rightarrow> cache_store \<Rightarrow> cache_store" where
  "cache_delete key c = c(key := None)"

definition cache_clear :: "cache_store \<Rightarrow> cache_store" where
  "cache_clear c = Map.empty"

subsection \<open>State and the remote agent\<close>

record state =
  cache :: cache_store
  calls :: "(string \<times> string option) list"

text \<open>
  An exception raised by the remote call. Every handler reads its text \<open>str(e)\<close>, the
  last argument here; \<open>update_task\<close> also tells an \<open>HTTPException\<close> from any other
  exception.
\<close>

datatype exn = OtherException string | RaisedHTTPException http_exception string

fun exn_str :: "exn \<Rightarrow> string" where
  "exn_str (OtherException s) = s"
| "exn_str (RaisedHTTPException h s) = s"

text \<open>
  \<open>n8n_service.send_message(message, session_id)\<close>: the class \<open>N8NService\<close> is not among
  the sources and the agent behind it is external, so its answer is a parameter: for a
  message and an optional session id, either an exception (\<open>Inl\<close>) or the JSON object
  returned (\<open>Inr\<close>). Every call is appended to the log.
\<close>

type_synonym gateway = "string \<Rightarrow> string option \<Rightarrow> exn + response"

definition n8n_send_message ::
  "gateway \<Rightarrow> string \<Rightarrow> string option \<Rightarrow> state \<Rightarrow> (exn + response) \<times> state" where
  "n8n_send_message gw message sid st = (gw message sid, st\<lparr>calls := calls st @ [(message, sid)]\<rparr>)"

subsection \<open>Request and response models\<close>

text \<open>
  Modelled from the spec: the pydantic models of module \<open>models\<close> are imported by
  \<open>main.py\<close> but are not among the sources. Their fields are those the handlers read
  and write; an optional field that was not supplied is \<open>None\<close>. \<open>TaskCreate\<close> has the
  fields of \<open>TaskUpdate\<close> and the task's name.
\<close>

record TaskUpdate =
  status :: "string option"
  description :: "string option"
  deadline :: "string option"

record TaskCreate = TaskUpdate +
  task_name :: string

record TaskListResponse =
  tasks :: "task list"
  count :: nat

record TaskResponse =
  success :: bool
  message :: string
  data :: "(string \<times> jval) list"

record MessageRequest =
  message :: string
  session_id :: "string option"

record MessageResponse =
  response :: response

definition opt_json :: "string option \<Rightarrow> jval" where
  "opt_json v = (case v of None \<Rightarrow> JNull | Some s \<Rightarrow> JStr s)"

text \<open>\<open>task.dict()\<close>\<close>

definition TaskCreate_dict :: "TaskCreate \<Rightarrow> (string \<times> jval) list" where
  "TaskCreate_dict task =
     [(''task_name'', JStr (task_name task)),
      (''status'', opt_json (status task)),
      (''description'', opt_json (description task)),
      (''deadline'', opt_json (deadline task))]"

text \<open>\<open>task_update.dict(exclude_none=True)\<close>\<close>

definition TaskUpdate_dict_exclude_none :: "TaskUpdate \<Rightarrow> (string \<times> jval) list" where
  "TaskUpdate_dict_exclude_none u =
     (case status u of None \<Rightarrow> [] | Some s \<Rightarrow> [(''status'', JStr s)]) @
     (case description u of None \<Rightarrow> [] | Some s \<Rightarrow> [(''description'', JStr s)]) @
     (case deadline u of None \<Rightarrow> [] | Some s \<Rightarrow> [(''deadline'', JStr s)])"

subsection \<open>Messages built for the remote agent\<close>

text \<open>\<open>get_tasks\<close>, lines 176-178 and 186-188.\<close>

definition list_message :: "string option \<Rightarrow> string" where
  "list_message status_filter =
     (if truthy status_filter
      then ''Show me all tasks with status '' @ the status_filter
      else ''Show me all tasks'')"

text \<open>\<open>create_task\<close>, lines 219-228: three conditional \<open>+=\<close>.\<close>

definition create_message :: "TaskCreate \<Rightarrow> string" where
  "create_message task =
     (let m0 = ''Create a new task called '' @ [CHR 0x27] @ task_name task @ [CHR 0x27];
          m1 = (if truthy (status task)
                then m0 @ '' with status '' @ [CHR 0x27] @ the (status task) @ [CHR 0x27] else m0);
          m2 = (if truthy (description task)
                then m1 @ '' and description '' @ [CHR 0x27] @ the (description task) @ [CHR 0x27] else m1);
          m3 = (if truthy (deadline task)
                then m2 @ '' with deadline '' @ [CHR 0x27] @ the (deadline task) @ [CHR 0x27] else m2)
      in m3)"

text \<open>\<open>", ".join(updates)\<close>\<close>

fun join_comma :: "string list \<Rightarrow> string" where
  "join_comma [] = []"
| "join_comma [x] = x"
| "join_comma (x # y # ys) = x @ '', '' @ join_comma (y # ys)"

text \<open>\<open>update_task\<close>, lines 264-273: the list \<open>updates\<close>.\<close>

definition update_clauses :: "TaskUpdate \<Rightarrow> string list" where
  "update_clauses u =
     (let u0 = [];
          u1 = (if truthy (status u)
                then u0 @ [''status to '' @ [CHR 0x27] @ the (status u) @ [CHR 0x27]] else u0);
          u2 = (if truthy (description u)
                then u1 @ [''description to '' @ [CHR 0x27] @ the (description u) @ [CHR 0x27]] else u1);
          u3 = (if truthy (deadline u)
                then u2 @ [''deadline to '' @ [CHR 0x27] @ the (deadline u) @ [CHR 0x27]] else u2)
      in u3)"

text \<open>\<open>update_task\<close>, lines 263 and 281.\<close>

definition update_message :: "string \<Rightarrow> string list \<Rightarrow> string" where
  "update_message name updates =
     ''Update the task '' @ [CHR 0x27] @ name @ [CHR 0x27] @ '' - change '' @ join_comma updates"

text \<open>\<open>delete_task\<close>, line 314.\<close>

definition delete_message :: "string \<Rightarrow> string" where
  "delete_message name =
     ''Delete the task '' @ [CHR 0x27] @ name @ [CHR 0x27] @ '' - yes, I'' @ [CHR 0x27] @ ''m sure''"

subsection \<open>Task endpoints\<close>

text \<open>
  \<open>get_tasks\<close>, lines 158-204. \<open>t_get\<close> is the clock when the cache is read, \<open>t_set\<close> the
  clock when the result is stored, after the remote call. \<open>if cached_tasks:\<close> is Python
  truth: the branch is taken for a list that is present and not empty.
\<close>

definition get_tasks ::
  "gateway \<Rightarrow> bool \<Rightarrow> string option \<Rightarrow> bool \<Rightarrow> time \<Rightarrow> time \<Rightarrow> state
     \<Rightarrow> (http_exception + TaskListResponse) \<times> state" where
  "get_tasks gw evict status_filter use_cache t_get t_set st =
     (if use_cache then
        (case cache_get evict ''all_tasks'' t_get (cache st) of
           (cached_tasks, c1) \<Rightarrow>
             let st1 = st\<lparr>cache := c1\<rparr> in
             if truthy_tasks cached_tasks then
               (Inr \<lparr>tasks = the cached_tasks, count = length (the cached_tasks)\<rparr>, st1)
             else
               (case n8n_send_message gw (list_message status_filter) None st1 of
                  (Inl e, st2) \<Rightarrow>
                    (Inl (HTTPException 500 (''Failed to fetch tasks: '' @ exn_str e)), st2)
                | (Inr resp, st2) \<Rightarrow>
                    let ts = get_tasks_or_empty resp;
                        st3 = st2\<lparr>cache := cache_set ''all_tasks'' ts 60 t_set (cache st2)\<rparr>
                    in (Inr \<lparr>tasks = ts, count = length ts\<rparr>, st3)))
      else
        (case n8n_send_message gw (list_message status_filter) None st of
           (Inl e, st2) \<Rightarrow>
             (Inl (HTTPException 500 (''Failed to fetch tasks: '' @ exn_str e)), st2)
         | (Inr resp, st2) \<Rightarrow>
             let ts = get_tasks_or_empty resp
             in (Inr \<lparr>tasks = ts, count = length ts\<rparr>, st2)))"

text \<open>\<open>create_task\<close>, lines 208-248.\<close>

definition create_task ::
  "gateway \<Rightarrow> TaskCreate \<Rightarrow> state \<Rightarrow> (http_exception + TaskResponse) \<times> state" where
  "create_task gw task st =
     (case n8n_send_message gw (create_message task) None st of
        (Inl e, st1) \<Rightarrow>
          (Inl (HTTPException 500 (''Failed to create task: '' @ exn_str e)), st1)
      | (Inr resp, st1) \<Rightarrow>
          let st2 = st1\<lparr>cache := cache_delete ''all_tasks'' (cache st1)\<rparr>
          in (Inr \<lparr>success = True,
                    TaskResponse.message =
                      ''Task '' @ [CHR 0x27] @ task_name task @ [CHR 0x27] @ '' created successfully'',
                    data = TaskCreate_dict task\<rparr>, st2))"

text \<open>
  \<open>update_task\<close>, lines 252-303. \<open>except HTTPException: raise\<close> re-raises as it is the
  \<open>HTTPException\<close> raised for an empty \<open>updates\<close> list, and also one that comes out of
  the remote call; any other exception becomes the error 500.
\<close>

definition update_task ::
  "gateway \<Rightarrow> string \<Rightarrow> TaskUpdate \<Rightarrow> state \<Rightarrow> (http_exception + TaskResponse) \<times> state" where
  "update_task gw name task_update st =
     (let updates = update_clauses task_update in
      if updates = [] then
        (Inl (HTTPException 400 ''No fields to update provided''), st)
      else
        (case n8n_send_message gw (update_message name updates) None st of
           (Inl (RaisedHTTPException exc s), st1) \<Rightarrow> (Inl exc, st1)
         | (Inl (OtherException s), st1) \<Rightarrow>
             (Inl (HTTPException 500 (''Failed to update task: '' @ s)), st1)
         | (Inr resp, st1) \<Rightarrow>
             let st2 = st1\<lparr>cache := cache_delete ''all_tasks'' (cache st1)\<rparr>
             in (Inr \<lparr>success = True,
                       TaskResponse.message =
                         ''Task '' @ [CHR 0x27] @ name @ [CHR 0x27] @ '' updated successfully'',
                       data = (''task_name'', JStr name) # TaskUpdate_dict_exclude_none task_update\<rparr>,
                 st2)))"

text \<open>\<open>delete_task\<close>, lines 307-334.\<close>

definition delete_task ::
  "gateway \<Rightarrow> string \<Rightarrow> state \<Rightarrow> (http_exception + TaskResponse) \<times> state" where
  "delete_task gw name st =
     (case n8n_send_message gw (delete_message name) None st of
        (Inl e, st1) \<Rightarrow>
          (Inl (HTTPException 500 (''Failed to delete task: '' @ exn_str e)), st1)
      | (Inr resp, st1) \<Rightarrow>
          let st2 = st1\<lparr>cache := cache_delete ''all_tasks'' (cache st1)\<rparr>
          in (Inr \<lparr>success = True,
                    TaskResponse.message =
                      ''Task '' @ [CHR 0x27] @ name @ [CHR 0x27] @ '' deleted successfully'',
                    data = [(''task_name'', JStr name)]\<rparr>, st2))"

subsection \<open>Natural language endpoint\<close>

text \<open>
  \<open>str.lower()\<close> on the letters \<open>A\<close> to \<open>Z\<close>; every other character is kept. (Python also
  maps letters outside ASCII; none of them is mapped to a letter of the six keywords.)
\<close>

definition lower_char :: "char \<Rightarrow> char" where
  "lower_char c =
     (let n = (of_char c :: nat) in if 65 \<le> n \<and> n \<le> 90 then char_of (n + 32) else c)"

definition lower :: "string \<Rightarrow> string" where
  "lower s = map lower_char s"

text \<open>\<open>kw in s\<close> on strings: \<open>kw\<close> occurs in \<open>s\<close> as a contiguous substring.\<close>

fun startswith :: "string \<Rightarrow> string \<Rightarrow> bool" where
  "startswith s [] = True"
| "startswith [] (k # ks) = False"
| "startswith (c # s) (k # ks) = (c = k \<and> startswith s ks)"

fun str_in :: "string \<Rightarrow> string \<Rightarrow> bool" where
  "str_in kw [] = (kw = [])"
| "str_in kw (c # s) = (startswith (c # s) kw \<or> str_in kw s)"

definition action_keywords :: "string list" where
  "action_keywords = [''create'', ''update'', ''delete'', ''add'', ''remove'', ''change'']"

text \<open>\<open>send_message\<close>, lines 340-370.\<close>

definition send_message ::
  "gateway \<Rightarrow> MessageRequest \<Rightarrow> state \<Rightarrow> (http_exception + MessageResponse) \<times> state" where
  "send_message gw message_request st =
     (case n8n_send_message gw (MessageRequest.message message_request)
             (session_id message_request) st of
        (Inl e, st1) \<Rightarrow>
          (Inl (HTTPException 500 (''Failed to process message: '' @ exn_str e)), st1)
      | (Inr resp, st1) \<Rightarrow>
          let st2 = (if list_ex (\<lambda>keyword. str_in keyword (lower (MessageRequest.message message_request)))
                          action_keywords
                     then st1\<lparr>cache := cache_delete ''all_tasks'' (cache st1)\<rparr>
                     else st1)
          in (Inr \<lparr>response = resp\<rparr>, st2))"

subsection \<open>Python floats, as far as the statistics need them\<close>

text \<open>
  A finite non-negative binary64 value is \<open>PyFloat m e\<close>, standing for \<open>m * 2 ^ e\<close>, with
  \<open>m = 0\<close> and \<open>e = 0\<close> for zero and \<open>2 ^ 52 \<le> m < 2 ^ 53\<close> otherwise. The exponent
  range is not bounded: the quotients and products below lie between \<open>2 ^ - 64\<close> and
  \<open>100\<close> for every list that fits in memory, far from overflow and from subnormals.
\<close>

datatype pyfloat = PyFloat int int

text \<open>\<open>p / q\<close> rounded to the nearest integer, ties to the even one (\<open>0 \<le> p\<close>, \<open>0 < q\<close>).\<close>

definition round_half_even :: "int \<Rightarrow> int \<Rightarrow> int" where
  "round_half_even p q =
     (let d = p div q; r = p mod q
      in if 2 * r < q then d
         else if q < 2 * r then d + 1
         else if even d then d else d + 1)"

text \<open>\<open>p * 2 ^ (- e) / q\<close> as a pair of integers.\<close>

definition scaled :: "int \<Rightarrow> int \<Rightarrow> int \<Rightarrow> int \<times> int" where
  "scaled p q e = (if 0 \<le> e then (p, q * 2 ^ nat e) else (p * 2 ^ nat (- e), q))"

text \<open>
  The binary64 value nearest to \<open>p / q\<close>, ties to even (\<open>0 \<le> p\<close>, \<open>0 < q\<close>): what
  Python's true division \<open>p / q\<close> of two \<open>int\<close>s returns, and what the literal
  \<open>33.33\<close> denotes for \<open>p = 3333\<close>, \<open>q = 100\<close>.
\<close>

definition float_of_ratio :: "int \<Rightarrow> int \<Rightarrow> pyfloat" where
  "float_of_ratio p q =
     (if p = 0 then PyFloat 0 0
      else
        let e0 = bitlen p - bitlen q - 53;
            e = (if 2 ^ 53 \<le> fst (scaled p q e0) div snd (scaled p q e0) then e0 + 1 else e0);
            m = round_half_even (fst (scaled p q e)) (snd (scaled p q e))
        in if m = 2 ^ 53 then PyFloat (2 ^ 52) (e + 1) else PyFloat m e)"

text \<open>\<open>p / q\<close> on two \<open>int\<close>s raises \<open>ZeroDivisionError\<close> for \<open>q = 0\<close>.\<close>

definition py_truediv :: "int \<Rightarrow> int \<Rightarrow> string + pyfloat" where
  "py_truediv p q = (if q = 0 then Inl ''division by zero'' else Inr (float_of_ratio p q))"

text \<open>\<open>x * k\<close> for a float \<open>x\<close> and a positive \<open>int\<close> \<open>k\<close> below \<open>2 ^ 53\<close>.\<close>

fun float_mul_int :: "pyfloat \<Rightarrow> int \<Rightarrow> pyfloat" where
  "float_mul_int (PyFloat m e) k =
     (if 0 \<le> e then float_of_ratio (m * k * 2 ^ nat e) 1
      else float_of_ratio (m * k) (2 ^ nat (- e)))"

text \<open>
  \<open>round(x, 2)\<close>: the exact value of \<open>x\<close> is rounded to a whole number of hundredths,
  ties to even, and the float nearest to that decimal is returned.
\<close>

fun py_round2 :: "pyfloat \<Rightarrow> pyfloat" where
  "py_round2 (PyFloat m e) =
     (let n = (if 0 \<le> e then round_half_even (m * 100 * 2 ^ nat e) 1
               else round_half_even (m * 100) (2 ^ nat (- e)))
      in float_of_ratio n 100)"

subsection \<open>Statistics endpoint\<close>

record by_status =
  TODO :: nat
  IN_PROGRESS :: nat
  DONE :: nat

record stats =
  total_tasks :: nat
  by_status :: by_status
  completion_rate :: pyfloat

text \<open>\<open>sum(1 for t in tasks if t.get("status") == s)\<close>\<close>

definition count_status :: "string \<Rightarrow> task list \<Rightarrow> nat" where
  "count_status s ts = length (filter (\<lambda>t. dict_get t ''status'' = Some (JStr s)) ts)"

text \<open>
  \<open>get_task_stats\<close>, lines 375-407. An exception of the division would be caught by
  \<open>except Exception\<close> like one of the remote call.
\<close>

definition get_task_stats :: "gateway \<Rightarrow> state \<Rightarrow> (http_exception + stats) \<times> state" where
  "get_task_stats gw st =
     (case n8n_send_message gw ''Show me all tasks'' None st of
        (Inl e, st1) \<Rightarrow>
          (Inl (HTTPException 500 (''Failed to fetch statistics: '' @ exn_str e)), st1)
      | (Inr resp, st1) \<Rightarrow>
          let ts = get_tasks_or_empty resp;
              stats0 = \<lparr>total_tasks = length ts,
                        by_status = \<lparr>TODO = count_status ''TODO'' ts,
                                      IN_PROGRESS = count_status ''IN PROGRESS'' ts,
                                      DONE = count_status ''DONE'' ts\<rparr>,
                        completion_rate = PyFloat 0 0\<rparr>
          in if 0 < total_tasks stats0 then
               (case py_truediv (int (DONE (by_status stats0))) (int (total_tasks stats0)) of
                  Inl e \<Rightarrow>
                    (Inl (HTTPException 500 (''Failed to fetch statistics: '' @ e)), st1)
                | Inr q \<Rightarrow>
                    (Inr (stats0\<lparr>completion_rate := py_round2 (float_mul_int q 100)\<rparr>), st1))
             else (Inr stats0, st1))"

subsection \<open>Request validation in front of \<open>create_task\<close>\<close>

text \<open>
  Modelled from the spec: the validation of the request body against \<open>TaskCreate\<close> is
  done by the framework from the declaration in module \<open>models\<close>, which is not among the
  sources; \<open>create_task\<close> itself has no check of the name. The specification (section
  4.3 and the table of section 6) says that creation fails with a validation error,
  reported as 422, if the name is empty, before any remote call; the handler runs only
  for a body that passes.
\<close>

datatype request_error = RequestValidationError | Raised http_exception

fun status_code :: "request_error \<Rightarrow> nat" where
  "status_code RequestValidationError = 422"
| "status_code (Raised (HTTPException code detail)) = code"

definition post_tasks ::
  "gateway \<Rightarrow> TaskCreate \<Rightarrow> state \<Rightarrow> (request_error + TaskResponse) \<times> state" where
  "post_tasks gw task st =
     (if task_name task = [] then (Inl RequestValidationError, st)
      else (case create_task gw task st of
              (Inl exc, st1) \<Rightarrow> (Inl (Raised exc), st1)
            | (Inr r, st1) \<Rightarrow> (Inr r, st1)))"

subsection \<open>States the service can be in\<close>

text \<open>
  The cache is created empty (line 38); afterwards the state changes only through the
  handlers and through \<open>cache_service.clear()\<close> at shutdown (line 62).
\<close>

inductive reachable :: "state \<Rightarrow> bool" where
  start: "reachable \<lparr>cache = Map.empty, calls = []\<rparr>"
| list: "reachable st \<Longrightarrow> reachable (snd (get_tasks gw evict status_filter use_cache t_get t_set st))"
| create: "reachable st \<Longrightarrow> reachable (snd (create_task gw task st))"
| update: "reachable st \<Longrightarrow> reachable (snd (update_task gw name task_update st))"
| delete: "reachable st \<Longrightarrow> reachable (snd (delete_task gw name st))"
| message: "reachable st \<Longrightarrow> reachable (snd (send_message gw message_request st))"
| stats: "reachable st \<Longrightarrow> reachable (snd (get_task_stats gw st))"
| shutdown: "reachable st \<Longrightarrow> reachable (st\<lparr>cache := cache_clear (cache st)\<rparr>)"

subsection \<open>The message templates as the specification words them\<close>

text \<open>
  Section 4.2 of the specification gives the templates. A clause is there for a field
  that was supplied with a non-empty value. These definitions follow the specification,
  not the code; the theorems below compare the two.
\<close>

definition quoted :: "string \<Rightarrow> string" where
  "quoted s = [CHR 0x27] @ s @ [CHR 0x27]"

definition supplied :: "string option \<Rightarrow> string list" where
  "supplied v = (case v of None \<Rightarrow> [] | Some s \<Rightarrow> if s = [] then [] else [s])"

definition spec_list_message :: "string option \<Rightarrow> string" where
  "spec_list_message status_filter =
     ''Show me all tasks'' @ concat (map (\<lambda>s. '' with status '' @ s) (supplied status_filter))"

definition spec_create_message ::
  "string \<Rightarrow> string option \<Rightarrow> string option \<Rightarrow> string option \<Rightarrow> string" where
  "spec_create_message name st de dl =
     ''Create a new task called '' @ quoted name
       @ concat (map (\<lambda>s. '' with status '' @ quoted s) (supplied st))
       @ concat (map (\<lambda>s. '' and description '' @ quoted s) (supplied de))
       @ concat (map (\<lambda>s. '' with deadline '' @ quoted s) (supplied dl))"

fun comma_joined :: "string list \<Rightarrow> string" where
  "comma_joined [] = []"
| "comma_joined (x # xs) = foldl (\<lambda>acc y. acc @ '', '' @ y) x xs"

definition spec_update_message ::
  "string \<Rightarrow> string option \<Rightarrow> string option \<Rightarrow> string option \<Rightarrow> string" where
  "spec_update_message name st de dl =
     ''Update the task '' @ quoted name @ '' - change ''
       @ comma_joined
           (map (\<lambda>s. ''status to '' @ quoted s) (supplied st)
            @ map (\<lambda>s. ''description to '' @ quoted s) (supplied de)
            @ map (\<lambda>s. ''deadline to '' @ quoted s) (supplied dl))"

definition spec_delete_message :: "string \<Rightarrow> string" where
  "spec_delete_message name =
     ''Delete the task '' @ quoted name @ '' - yes, I'' @ [CHR 0x27] @ ''m sure''"

subsection \<open>Notions used in the statements\<close>

text \<open>
  What \<open>get_tasks\<close> answers when it has asked the remote agent: the error 500 for an
  exception, the tasks of the answer and their number otherwise.
\<close>

definition list_result :: "exn + response \<Rightarrow> http_exception + TaskListResponse" where
  "list_result r =
     (case r of
        Inl e \<Rightarrow> Inl (HTTPException 500 (''Failed to fetch tasks: '' @ exn_str e))
      | Inr resp \<Rightarrow>
          Inr \<lparr>tasks = get_tasks_or_empty resp, count = length (get_tasks_or_empty resp)\<rparr>)"

text \<open>
  Example values: a state whose cache holds one task under \<open>"all_tasks"\<close>, expiring at
  time 100, and a remote agent that always answers with the given \<open>"tasks"\<close> entry.
\<close>

definition example_state :: state where
  "example_state =
     \<lparr>cache = [''all_tasks'' \<mapsto> ([[(''task_name'', JStr ''Old''), (''status'', JStr ''TODO'')]], 100)],
      calls = []\<rparr>"

definition example_gateway :: "task list option \<Rightarrow> gateway" where
  "example_gateway ts msg sid = Inr \<lparr>tasks_field = ts, other_fields = [(''success'', JBool True)]\<rparr>"

text \<open>The state at start, and a task as the remote agent may return it.\<close>

definition empty_state :: state where
  "empty_state = \<lparr>cache = Map.empty, calls = []\<rparr>"

definition example_task :: task where
  "example_task = [(''task_name'', JStr ''New''), (''status'', JStr ''TODO'')]"

section \<open>Properties\<close>

subsection \<open>What a successful mutation does to the state\<close>

lemma create_task_ok:
  "gw (create_message task) None = Inr r \<Longrightarrow>
   snd (create_task gw task st) =
     st\<lparr>calls := calls st @ [(create_message task, None)],
        cache := (cache st)(''all_tasks'' := None)\<rparr>"
  by (simp add: create_task_def n8n_send_message_def cache_delete_def)

lemma update_task_ok:
  "update_clauses u \<noteq> [] \<Longrightarrow> gw (update_message name (update_clauses u)) None = Inr r \<Longrightarrow>
   snd (update_task gw name u st) =
     st\<lparr>calls := calls st @ [(update_message name (update_clauses u), None)],
        cache := (cache st)(''all_tasks'' := None)\<rparr>"
  by (simp add: update_task_def n8n_send_message_def cache_delete_def Let_def)

lemma delete_task_ok:
  "gw (delete_message name) None = Inr r \<Longrightarrow>
   snd (delete_task gw name st) =
     st\<lparr>calls := calls st @ [(delete_message name, None)],
        cache := (cache st)(''all_tasks'' := None)\<rparr>"
  by (simp add: delete_task_def n8n_send_message_def cache_delete_def)

lemma get_tasks_absent:
  "cache st ''all_tasks'' = None \<Longrightarrow>
   fst (get_tasks gw evict sf True t_get t_set st) = list_result (gw (list_message sf) None) \<and>
   calls (snd (get_tasks gw evict sf True t_get t_set st)) = calls st @ [(list_message sf, None)]"
  by (simp add: get_tasks_def cache_get_def n8n_send_message_def list_result_def Let_def
      split: sum.splits)

text \<open>
  C1. When the remote call of a create, update or delete request succeeds, the state
  \<open>s'\<close> the handler leaves has no entry under \<open>"all_tasks"\<close>. A list request with
  \<open>use_cache = True\<close> handled in that state therefore asks the remote agent (one more call
  in the log) and answers with what the agent returns then, whatever the cache held
  before the mutation.
\<close>

theorem mutation_invalidates_list_cache:
  assumes "s' = snd (create_task gw task st) \<and> gw (create_message task) None = Inr r
         \<or> s' = snd (update_task gw name u st) \<and> update_clauses u \<noteq> []
             \<and> gw (update_message name (update_clauses u)) None = Inr r
         \<or> s' = snd (delete_task gw name st) \<and> gw (delete_message name) None = Inr r"
  shows "cache s' ''all_tasks'' = None
       \<and> fst (get_tasks gw2 evict sf True t_get t_set s') = list_result (gw2 (list_message sf) None)
       \<and> calls (snd (get_tasks gw2 evict sf True t_get t_set s'))
           = calls s' @ [(list_message sf, None)]"
proof -
  from assms have absent: "cache s' ''all_tasks'' = None"
    by (auto simp: create_task_ok update_task_ok delete_task_ok)
  with get_tasks_absent [OF absent] show ?thesis by simp
qed

theorem mutation_invalidates_list_cache_witness:
  "cache example_state ''all_tasks'' \<noteq> None
   \<and> cache (snd (create_task (example_gateway None)
               \<lparr>status = Some ''TODO'', description = None, deadline = None, task_name = ''New''\<rparr>
               example_state)) ''all_tasks'' = None
   \<and> cache (snd (update_task (example_gateway None) ''Old''
               \<lparr>status = Some ''DONE'', description = None, deadline = None\<rparr>
               example_state)) ''all_tasks'' = None
   \<and> cache (snd (delete_task (example_gateway None) ''Old'' example_state)) ''all_tasks'' = None
   \<and> fst (get_tasks (example_gateway (Some [])) True None True 0 0
            (snd (delete_task (example_gateway None) ''Old'' example_state)))
       = Inr \<lparr>tasks = [], count = 0\<rparr>"
proof -
  let ?gw = "example_gateway None"
  let ?r = "\<lparr>tasks_field = None, other_fields = [(''success'', JBool True)]\<rparr>"
  let ?task = "\<lparr>status = Some ''TODO'', description = None, deadline = None, task_name = ''New''\<rparr>"
  let ?u = "\<lparr>status = Some ''DONE'', description = None, deadline = None\<rparr>"
  have c: "cache (snd (create_task ?gw ?task example_state)) ''all_tasks'' = None"
    using mutation_invalidates_list_cache
      [where s' = "snd (create_task ?gw ?task example_state)" and gw = ?gw and task = ?task
         and st = example_state and r = ?r]
    by (simp add: example_gateway_def)
  have u: "cache (snd (update_task ?gw ''Old'' ?u example_state)) ''all_tasks'' = None"
    using mutation_invalidates_list_cache
      [where s' = "snd (update_task ?gw ''Old'' ?u example_state)" and gw = ?gw and u = ?u
         and name = "''Old''" and st = example_state and r = ?r]
    by (simp add: example_gateway_def update_clauses_def)
  have d: "cache (snd (delete_task ?gw ''Old'' example_state)) ''all_tasks'' = None
         \<and> fst (get_tasks (example_gateway (Some [])) True None True 0 0
            (snd (delete_task ?gw ''Old'' example_state)))
             = list_result (example_gateway (Some []) (list_message None) None)"
    using mutation_invalidates_list_cache
      [where s' = "snd (delete_task ?gw ''Old'' example_state)" and gw = ?gw
         and name = "''Old''" and st = example_state and r = ?r
         and ?gw2.0 = "example_gateway (Some [])"
         and evict = True and sf = None and t_get = 0 and t_set = 0]
    by (simp add: example_gateway_def)
  have e: "cache example_state ''all_tasks'' \<noteq> None"
    by (simp add: example_state_def)
  have l: "list_result (example_gateway (Some []) (list_message None) None)
             = Inr \<lparr>tasks = [], count = 0\<rparr>"
    by (simp add: list_result_def example_gateway_def get_tasks_or_empty_def)
  from c u d e l show ?thesis by simp
qed

subsection \<open>Listing tasks\<close>

lemma get_tasks_cache_hit:
  "cache st ''all_tasks'' = Some (ts, expires_at) \<Longrightarrow> ts \<noteq> [] \<Longrightarrow> t_get < expires_at \<Longrightarrow>
   get_tasks gw evict sf True t_get t_set st = (Inr \<lparr>tasks = ts, count = length ts\<rparr>, st)"
  by (simp add: get_tasks_def cache_get_def)

lemma cache_get_other: "k \<noteq> key \<Longrightarrow> snd (cache_get evict key now c) k = c k"
  by (simp add: cache_get_def split: option.splits prod.splits)

lemma get_tasks_asks:
  assumes "use_cache \<longrightarrow> \<not> truthy_tasks (fst (cache_get evict ''all_tasks'' t_get (cache st)))"
  shows "fst (get_tasks gw evict sf use_cache t_get t_set st) = list_result (gw (list_message sf) None)"
    and "calls (snd (get_tasks gw evict sf use_cache t_get t_set st)) = calls st @ [(list_message sf, None)]"
    and "gw (list_message sf) None = Inr r \<Longrightarrow>
         cache (snd (get_tasks gw evict sf use_cache t_get t_set st)) =
           (if use_cache then (cache st)(''all_tasks'' \<mapsto> (get_tasks_or_empty r, t_set + 60 * 1000000))
            else cache st)"
    and "gw (list_message sf) None = Inl e \<Longrightarrow>
         cache (snd (get_tasks gw evict sf use_cache t_get t_set st)) =
           (if use_cache then snd (cache_get evict ''all_tasks'' t_get (cache st)) else cache st)"
  using assms
  by (auto simp: get_tasks_def n8n_send_message_def list_result_def Let_def cache_set_def cache_get_def
      split: sum.splits prod.splits option.splits if_splits)

text \<open>
  C2. The claim says that a list request with \<open>use_cache = True\<close> returns a non-expired
  cached value as it is, without a remote call. The code tests \<open>if cached_tasks:\<close>, so
  a cached empty list counts as a miss. Here a first list request, answered by the
  remote agent with no tasks, stores \<open>[]\<close> for 60 seconds; a second request one second
  later finds that entry (\<open>cache_service.get\<close> returns \<open>[]\<close>), yet it calls the remote
  agent again and returns the agent's new answer, not the cached value.
\<close>

theorem cached_empty_list_is_not_served:
  "fst (cache_get True ''all_tasks'' 1000000
          (cache (snd (get_tasks (example_gateway (Some [])) True None True 0 0 empty_state))))
     = Some []
   \<and> get_tasks (example_gateway (Some [example_task])) True None True 1000000 2000000
        (snd (get_tasks (example_gateway (Some [])) True None True 0 0 empty_state))
     = (Inr \<lparr>tasks = [example_task], count = 1\<rparr>,
        \<lparr>cache = [''all_tasks'' \<mapsto> ([example_task], 62000000)],
         calls = [(''Show me all tasks'', None), (''Show me all tasks'', None)]\<rparr>)"
  by (simp add: get_tasks_def cache_get_def cache_set_def n8n_send_message_def example_gateway_def
      empty_state_def get_tasks_or_empty_def list_message_def Let_def)

text \<open>
  C4, as stated, fails for \<open>use_cache = False\<close>: the request is not served from the
  cache, the remote agent is called and returns one task, the count is 1, but nothing is
  stored in the cache.
\<close>

theorem list_without_cache_stores_nothing_counterexample:
  "calls (snd (get_tasks (example_gateway (Some [example_task])) True None False 0 0 empty_state))
     = [(''Show me all tasks'', None)]
   \<and> fst (get_tasks (example_gateway (Some [example_task])) True None False 0 0 empty_state)
     = Inr \<lparr>tasks = [example_task], count = 1\<rparr>
   \<and> cache (snd (get_tasks (example_gateway (Some [example_task])) True None False 0 0 empty_state))
        ''all_tasks'' = None
   \<and> cache (snd (get_tasks (example_gateway (Some [example_task])) True None False 0 0 empty_state))
        ''all_tasks'' \<noteq> Some ([example_task], 60000000)"
  by (simp add: get_tasks_def n8n_send_message_def example_gateway_def
      empty_state_def get_tasks_or_empty_def list_message_def)

text \<open>
  C4, amended. A list request that is not served from the cache (\<open>use_cache = False\<close>, or
  \<open>use_cache = True\<close> and the cache gives nothing true for \<open>"all_tasks"\<close>) calls the
  remote agent once. When the call returns, the response holds the returned tasks and
  their number; with \<open>use_cache = True\<close> the returned list is stored under \<open>"all_tasks"\<close>
  expiring 60 seconds after the time of the store, and with \<open>use_cache = False\<close> the
  cache is left as it was.
\<close>

theorem list_request_not_served_from_cache:
  assumes "use_cache \<longrightarrow> \<not> truthy_tasks (fst (cache_get evict ''all_tasks'' t_get (cache st)))"
  shows "calls (snd (get_tasks gw evict sf use_cache t_get t_set st))
           = calls st @ [(list_message sf, None)]
       \<and> (gw (list_message sf) None = Inr r \<longrightarrow>
            fst (get_tasks gw evict sf use_cache t_get t_set st)
              = Inr \<lparr>tasks = get_tasks_or_empty r, count = length (get_tasks_or_empty r)\<rparr>
          \<and> cache (snd (get_tasks gw evict sf use_cache t_get t_set st))
              = (if use_cache
                 then (cache st)(''all_tasks'' \<mapsto> (get_tasks_or_empty r, t_set + 60 * 1000000))
                 else cache st))"
  using get_tasks_asks [OF assms] by (simp add: list_result_def)

theorem list_request_not_served_from_cache_witness:
  "\<not> truthy_tasks (fst (cache_get True ''all_tasks'' 200 (cache example_state)))
   \<and> calls (snd (get_tasks (example_gateway (Some [example_task])) True (Some ''TODO'') True 200 300 example_state))
       = [(''Show me all tasks with status TODO'', None)]
   \<and> fst (get_tasks (example_gateway (Some [example_task])) True (Some ''TODO'') True 200 300 example_state)
       = Inr \<lparr>tasks = [example_task], count = 1\<rparr>
   \<and> cache (snd (get_tasks (example_gateway (Some [example_task])) True (Some ''TODO'') True 200 300 example_state))
       = [''all_tasks'' \<mapsto> ([example_task], 60000300)]
   \<and> cache (snd (get_tasks (example_gateway (Some [example_task])) True (Some ''TODO'') False 200 300 example_state))
       = cache example_state"
proof -
  let ?gw = "example_gateway (Some [example_task])"
  let ?r = "\<lparr>tasks_field = Some [example_task], other_fields = [(''success'', JBool True)]\<rparr>"
  have miss: "\<not> truthy_tasks (fst (cache_get True ''all_tasks'' 200 (cache example_state)))"
    by (simp add: cache_get_def example_state_def)
  have a: "?gw (list_message (Some ''TODO'')) None = Inr ?r"
    by (simp add: example_gateway_def)
  have m: "list_message (Some ''TODO'') = ''Show me all tasks with status TODO''"
    by (simp add: list_message_def)
  have g: "get_tasks_or_empty ?r = [example_task]"
    by (simp add: get_tasks_or_empty_def)
  have c: "cache example_state = [''all_tasks'' \<mapsto> ([[(''task_name'', JStr ''Old''), (''status'', JStr ''TODO'')]], 100)]"
         "calls example_state = []"
    by (simp_all add: example_state_def)
  have t: "calls (snd (get_tasks ?gw True (Some ''TODO'') True 200 300 example_state))
             = [(''Show me all tasks with status TODO'', None)]
         \<and> fst (get_tasks ?gw True (Some ''TODO'') True 200 300 example_state)
             = Inr \<lparr>tasks = [example_task], count = 1\<rparr>
         \<and> cache (snd (get_tasks ?gw True (Some ''TODO'') True 200 300 example_state))
             = [''all_tasks'' \<mapsto> ([example_task], 60000300)]"
    using list_request_not_served_from_cache
      [where use_cache = True and evict = True and t_get = 200 and st = example_state
         and gw = ?gw and sf = "Some ''TODO''" and t_set = 300 and r = ?r] miss a
    by (simp add: m g c)
  have f: "cache (snd (get_tasks ?gw True (Some ''TODO'') False 200 300 example_state))
             = cache example_state"
    using list_request_not_served_from_cache
      [where use_cache = False and evict = True and t_get = 200 and st = example_state
         and gw = ?gw and sf = "Some ''TODO''" and t_set = 300 and r = ?r] a
    by simp
  from miss t f show ?thesis by simp
qed

subsection \<open>The keys of the cache\<close>

lemma get_tasks_other_keys:
  "k \<noteq> ''all_tasks'' \<Longrightarrow> cache (snd (get_tasks gw evict sf use_cache t_get t_set st)) k = cache st k"
  by (auto simp: get_tasks_def n8n_send_message_def Let_def cache_set_def cache_get_def
      split: sum.splits prod.splits option.splits if_splits)

lemma create_task_other_keys:
  "k \<noteq> ''all_tasks'' \<Longrightarrow> cache (snd (create_task gw task st)) k = cache st k"
  by (simp add: create_task_def n8n_send_message_def cache_delete_def split: sum.splits)

lemma update_task_other_keys:
  "k \<noteq> ''all_tasks'' \<Longrightarrow> cache (snd (update_task gw name u st)) k = cache st k"
  by (simp add: update_task_def n8n_send_message_def cache_delete_def Let_def
      split: sum.splits exn.splits)

lemma delete_task_other_keys:
  "k \<noteq> ''all_tasks'' \<Longrightarrow> cache (snd (delete_task gw name st)) k = cache st k"
  by (simp add: delete_task_def n8n_send_message_def cache_delete_def split: sum.splits)

lemma send_message_other_keys:
  "k \<noteq> ''all_tasks'' \<Longrightarrow> cache (snd (send_message gw req st)) k = cache st k"
  by (simp add: send_message_def n8n_send_message_def cache_delete_def Let_def split: sum.splits)

lemma get_task_stats_cache: "cache (snd (get_task_stats gw st)) = cache st"
  by (simp add: get_task_stats_def n8n_send_message_def Let_def split: sum.splits)

lemma reachable_other_keys: "reachable st \<Longrightarrow> k \<noteq> ''all_tasks'' \<Longrightarrow> cache st k = None"
proof (induction rule: reachable.induct)
  case start
  show ?case by simp
next
  case (shutdown st)
  show ?case by (simp add: cache_clear_def)
qed (simp_all add: get_tasks_other_keys create_task_other_keys update_task_other_keys
      delete_task_other_keys send_message_other_keys get_task_stats_cache)

text \<open>
  C3. In every state the service can reach, the cache has no entry under a key other
  than \<open>"all_tasks"\<close>. A list request stores under that key whatever the status filter is
  (second part) and reads that key whatever the status filter is (third part). So the
  list stored by a request with filter \<open>sf\<close> is what a later request with any other
  filter \<open>sf'\<close>, or with none, gets back within the 60 seconds, without a remote call
  (fourth part): filtered and unfiltered queries share the one entry.
\<close>

theorem single_cache_key:
  assumes "reachable st"
  shows "dom (cache st) \<subseteq> {''all_tasks''}
       \<and> (\<not> truthy_tasks (fst (cache_get evict ''all_tasks'' t1 (cache st)))
            \<and> gw (list_message sf) None = Inr r \<longrightarrow>
          cache (snd (get_tasks gw evict sf True t1 t2 st))
            = [''all_tasks'' \<mapsto> (get_tasks_or_empty r, t2 + 60 * 1000000)])
       \<and> (cache st ''all_tasks'' = Some (ts, expires_at) \<and> ts \<noteq> [] \<and> t1 < expires_at \<longrightarrow>
          get_tasks gw evict sf True t1 t2 st = (Inr \<lparr>tasks = ts, count = length ts\<rparr>, st))
       \<and> (\<not> truthy_tasks (fst (cache_get evict ''all_tasks'' t1 (cache st)))
            \<and> gw (list_message sf) None = Inr r \<and> get_tasks_or_empty r \<noteq> []
            \<and> t3 < t2 + 60 * 1000000 \<longrightarrow>
          get_tasks gw' evict sf' True t3 t4 (snd (get_tasks gw evict sf True t1 t2 st))
            = (Inr \<lparr>tasks = get_tasks_or_empty r, count = length (get_tasks_or_empty r)\<rparr>,
               snd (get_tasks gw evict sf True t1 t2 st)))"
proof -
  have others: "cache st k = None" if "k \<noteq> ''all_tasks''" for k
    using assms that by (rule reachable_other_keys)
  have dom: "dom (cache st) \<subseteq> {''all_tasks''}"
  proof
    fix k assume "k \<in> dom (cache st)"
    then have some: "cache st k \<noteq> None" by (simp add: dom_def)
    show "k \<in> {''all_tasks''}"
    proof (rule ccontr)
      assume "k \<notin> {''all_tasks''}"
      then have "k \<noteq> ''all_tasks''" by simp
      then have "cache st k = None" by (rule others)
      with some show False by simp
    qed
  qed
  have store: "cache (snd (get_tasks gw evict sf True t1 t2 st))
                 = [''all_tasks'' \<mapsto> (get_tasks_or_empty r, t2 + 60 * 1000000)]"
    if "\<not> truthy_tasks (fst (cache_get evict ''all_tasks'' t1 (cache st)))"
      and "gw (list_message sf) None = Inr r"
  proof -
    have "cache (snd (get_tasks gw evict sf True t1 t2 st))
            = (cache st)(''all_tasks'' \<mapsto> (get_tasks_or_empty r, t2 + 60 * 1000000))"
      using get_tasks_asks(3) [of True evict t1 st gw sf r t2] that by simp
    moreover have "(cache st)(''all_tasks'' \<mapsto> v) = [''all_tasks'' \<mapsto> v]" for v
    proof
      fix k show "((cache st)(''all_tasks'' \<mapsto> v)) k = [''all_tasks'' \<mapsto> v] k"
      proof (cases "k = ''all_tasks''")
        case True
        then show ?thesis by simp
      next
        case False
        then show ?thesis by (simp add: others)
      qed
    qed
    ultimately show ?thesis by simp
  qed
  have hit: "get_tasks gw evict sf True t1 t2 st = (Inr \<lparr>tasks = ts, count = length ts\<rparr>, st)"
    if "cache st ''all_tasks'' = Some (ts, expires_at)" "ts \<noteq> []" "t1 < expires_at"
    using that by (rule get_tasks_cache_hit)
  have collide: "get_tasks gw' evict sf' True t3 t4 (snd (get_tasks gw evict sf True t1 t2 st))
            = (Inr \<lparr>tasks = get_tasks_or_empty r, count = length (get_tasks_or_empty r)\<rparr>,
               snd (get_tasks gw evict sf True t1 t2 st))"
    if "\<not> truthy_tasks (fst (cache_get evict ''all_tasks'' t1 (cache st)))"
      and "gw (list_message sf) None = Inr r" and "get_tasks_or_empty r \<noteq> []"
      and "t3 < t2 + 60 * 1000000"
  proof (rule get_tasks_cache_hit)
    show "cache (snd (get_tasks gw evict sf True t1 t2 st)) ''all_tasks''
            = Some (get_tasks_or_empty r, t2 + 60 * 1000000)"
      using store [OF that(1,2)] by simp
  qed (use that in simp_all)
  show ?thesis
  proof (intro conjI impI)
    show "dom (cache st) \<subseteq> {''all_tasks''}" by (rule dom)
  next
    assume "\<not> truthy_tasks (fst (cache_get evict ''all_tasks'' t1 (cache st)))
              \<and> gw (list_message sf) None = Inr r"
    then show "cache (snd (get_tasks gw evict sf True t1 t2 st))
                 = [''all_tasks'' \<mapsto> (get_tasks_or_empty r, t2 + 60 * 1000000)]"
      using store by simp
  next
    assume "cache st ''all_tasks'' = Some (ts, expires_at) \<and> ts \<noteq> [] \<and> t1 < expires_at"
    then show "get_tasks gw evict sf True t1 t2 st = (Inr \<lparr>tasks = ts, count = length ts\<rparr>, st)"
      using hit by simp
  next
    assume "\<not> truthy_tasks (fst (cache_get evict ''all_tasks'' t1 (cache st)))
              \<and> gw (list_message sf) None = Inr r \<and> get_tasks_or_empty r \<noteq> []
              \<and> t3 < t2 + 60 * 1000000"
    then show "get_tasks gw' evict sf' True t3 t4 (snd (get_tasks gw evict sf True t1 t2 st))
            = (Inr \<lparr>tasks = get_tasks_or_empty r, count = length (get_tasks_or_empty r)\<rparr>,
               snd (get_tasks gw evict sf True t1 t2 st))"
      using collide by simp
  qed
qed


theorem single_cache_key_witness:
  "reachable empty_state
   \<and> dom (cache empty_state) \<subseteq> {''all_tasks''}
   \<and> cache (snd (get_tasks (example_gateway (Some [example_task])) True (Some ''DONE'') True 0 0
                 empty_state))
       = [''all_tasks'' \<mapsto> ([example_task], 60000000)]
   \<and> get_tasks (example_gateway (Some [])) True None True 1000000 2000000
        (snd (get_tasks (example_gateway (Some [example_task])) True (Some ''DONE'') True 0 0
                empty_state))
       = (Inr \<lparr>tasks = [example_task], count = 1\<rparr>,
          snd (get_tasks (example_gateway (Some [example_task])) True (Some ''DONE'') True 0 0
                 empty_state))"
proof -
  let ?gw = "example_gateway (Some [example_task])"
  let ?r = "\<lparr>tasks_field = Some [example_task], other_fields = [(''success'', JBool True)]\<rparr>"
  have r: "reachable empty_state"
    unfolding empty_state_def by (rule reachable.start)
  have miss: "\<not> truthy_tasks (fst (cache_get True ''all_tasks'' 0 (cache empty_state)))"
    by (simp add: cache_get_def empty_state_def)
  have a: "?gw (list_message (Some ''DONE'')) None = Inr ?r"
    by (simp add: example_gateway_def)
  have g: "get_tasks_or_empty ?r = [example_task]"
    by (simp add: get_tasks_or_empty_def)
  have ne: "[example_task] \<noteq> []"
    by simp
  show ?thesis
    using single_cache_key
      [OF r, where evict = True and ?t1.0 = 0 and gw = ?gw and sf = "Some ''DONE''" and r = ?r
         and ?t2.0 = 0 and ?t3.0 = 1000000 and ?t4.0 = 2000000
         and gw' = "example_gateway (Some [])" and sf' = None] r miss a
    by (simp add: g)
qed

subsection \<open>Free-form messages\<close>

text \<open>\<open>str_in kw s\<close> says that \<open>kw\<close> occurs in \<open>s\<close>.\<close>

lemma startswith_iff: "startswith s kw \<longleftrightarrow> (\<exists>b. s = kw @ b)"
  by (induction s kw rule: startswith.induct) auto

lemma str_in_iff: "str_in kw s \<longleftrightarrow> (\<exists>a b. s = a @ kw @ b)"
proof (induction s)
  case Nil
  show ?case by auto
next
  case (Cons c s)
  show ?case
  proof
    assume "str_in kw (c # s)"
    then consider "startswith (c # s) kw" | "str_in kw s" by auto
    then show "\<exists>a b. c # s = a @ kw @ b"
    proof cases
      case 1
      then obtain b where "c # s = kw @ b" by (auto simp: startswith_iff)
      then have "c # s = [] @ kw @ b" by simp
      then show ?thesis by blast
    next
      case 2
      with Cons.IH obtain a b where "s = a @ kw @ b" by auto
      then have "c # s = (c # a) @ kw @ b" by simp
      then show ?thesis by blast
    qed
  next
    assume "\<exists>a b. c # s = a @ kw @ b"
    then obtain a b where ab: "c # s = a @ kw @ b" by auto
    show "str_in kw (c # s)"
    proof (cases a)
      case Nil
      with ab have "startswith (c # s) kw" by (auto simp: startswith_iff)
      then show ?thesis by simp
    next
      case (Cons x a')
      with ab have "s = a' @ kw @ b" by simp
      with Cons.IH have "str_in kw s" by auto
      then show ?thesis by simp
    qed
  qed
qed

lemma action_keyword_iff:
  "list_ex (\<lambda>keyword. str_in keyword s) action_keywords \<longleftrightarrow>
   (\<exists>kw \<in> {''create'', ''update'', ''delete'', ''add'', ''remove'', ''change''}.
      \<exists>a b. s = a @ kw @ b)"
  by (simp add: action_keywords_def str_in_iff)

text \<open>
  C5. When the remote call of a free-form message request succeeds, the request is
  answered with the agent's reply. If the lowercased text contains one of \<open>create\<close>,
  \<open>update\<close>, \<open>delete\<close>, \<open>add\<close>, \<open>remove\<close>, \<open>change\<close> as a substring, the entry
  \<open>"all_tasks"\<close> is deleted from the cache; otherwise the cache is unchanged.
\<close>

theorem free_form_message_invalidation:
  assumes "gw (MessageRequest.message req) (session_id req) = Inr r"
  shows "fst (send_message gw req st) = Inr \<lparr>response = r\<rparr>
       \<and> calls (snd (send_message gw req st))
           = calls st @ [(MessageRequest.message req, session_id req)]
       \<and> cache (snd (send_message gw req st))
           = (if \<exists>kw \<in> {''create'', ''update'', ''delete'', ''add'', ''remove'', ''change''}.
                   \<exists>a b. lower (MessageRequest.message req) = a @ kw @ b
              then (cache st)(''all_tasks'' := None)
              else cache st)"
proof -
  let ?mutating = "list_ex (\<lambda>keyword. str_in keyword (lower (MessageRequest.message req)))
                     action_keywords"
  have res: "fst (send_message gw req st) = Inr \<lparr>response = r\<rparr>"
    using assms by (simp add: send_message_def n8n_send_message_def Let_def)
  have log: "calls (snd (send_message gw req st))
               = calls st @ [(MessageRequest.message req, session_id req)]"
    using assms by (simp add: send_message_def n8n_send_message_def Let_def)
  have cch: "cache (snd (send_message gw req st))
               = (if ?mutating then (cache st)(''all_tasks'' := None) else cache st)"
    using assms by (simp add: send_message_def n8n_send_message_def cache_delete_def Let_def)
  show ?thesis
    unfolding action_keyword_iff [symmetric] using res log cch by (intro conjI)
qed

theorem free_form_message_invalidation_witness:
  "cache example_state ''all_tasks'' \<noteq> None
   \<and> cache (snd (send_message (example_gateway None)
                 \<lparr>MessageRequest.message = ''Please DELETE the old task'', session_id = Some ''s1''\<rparr>
                 example_state)) ''all_tasks'' = None
   \<and> cache (snd (send_message (example_gateway None)
                 \<lparr>MessageRequest.message = ''Show me all tasks'', session_id = None\<rparr>
                 example_state)) = cache example_state"
proof -
  let ?gw = "example_gateway None"
  let ?r = "\<lparr>tasks_field = None, other_fields = [(''success'', JBool True)]\<rparr>"
  let ?del = "\<lparr>MessageRequest.message = ''Please DELETE the old task'', session_id = Some ''s1''\<rparr>"
  let ?show = "\<lparr>MessageRequest.message = ''Show me all tasks'', session_id = None\<rparr>"
  have yes: "list_ex (\<lambda>keyword. str_in keyword (lower ''Please DELETE the old task'')) action_keywords"
    by code_simp
  have no: "\<not> list_ex (\<lambda>keyword. str_in keyword (lower ''Show me all tasks'')) action_keywords"
    by code_simp
  have e: "cache example_state ''all_tasks'' \<noteq> None"
    by (simp add: example_state_def)
  have d: "cache (snd (send_message ?gw ?del example_state)) ''all_tasks'' = None"
    using free_form_message_invalidation
      [where gw = ?gw and req = ?del and r = ?r and st = example_state]
      yes [unfolded action_keyword_iff]
    by (simp add: example_gateway_def)
  have s: "cache (snd (send_message ?gw ?show example_state)) = cache example_state"
    using free_form_message_invalidation
      [where gw = ?gw and req = ?show and r = ?r and st = example_state]
      no [unfolded action_keyword_iff]
    by (simp add: example_gateway_def)
  from e d s show ?thesis by simp
qed

subsection \<open>Rejected requests\<close>

text \<open>
  C6. An update request with none of \<open>status\<close>, \<open>description\<close>, \<open>deadline\<close> fails with
  the client error 400, \<open>No fields to update provided\<close>, and leaves the state as it was:
  no call is added to the log and the cache is not touched.
\<close>

theorem update_without_fields_is_rejected:
  "update_task gw name \<lparr>status = None, description = None, deadline = None\<rparr> st
     = (Inl (HTTPException 400 ''No fields to update provided''), st)"
  by (simp add: update_task_def update_clauses_def)

text \<open>
  C7. A create request whose \<open>task_name\<close> is empty fails with a validation error,
  reported as 422, and leaves the state as it was: no remote call and no change of the
  cache.
\<close>

theorem create_with_empty_name_is_rejected:
  "post_tasks gw (task\<lparr>task_name := []\<rparr>) st = (Inl RequestValidationError, st)
   \<and> status_code RequestValidationError = 422"
  by (simp add: post_tasks_def)

subsection \<open>Statistics\<close>

text \<open>\<open>round_half_even p q\<close> is an integer nearest to \<open>p / q\<close>.\<close>

lemma round_half_even_nearest:
  assumes "0 < q"
  shows "2 * \<bar>q * round_half_even p q - p\<bar> \<le> q"
proof -
  define d where "d = p div q"
  define r where "r = p mod q"
  have p: "p = q * d + r"
    by (simp add: d_def r_def)
  have r: "0 \<le> r" "r < q"
    using assms by (simp_all add: r_def)
  have "round_half_even p q =
          (if 2 * r < q then d else if q < 2 * r then d + 1 else if even d then d else d + 1)"
    by (simp add: round_half_even_def Let_def d_def r_def)
  then consider (down) "round_half_even p q = d" "2 * r \<le> q"
    | (up) "round_half_even p q = d + 1" "q \<le> 2 * r"
    by (cases "2 * r < q"; cases "q < 2 * r"; cases "even d") simp_all
  then show ?thesis
  proof cases
    case down
    have "q * round_half_even p q - p = - r"
      using p down(1) by simp
    with r down(2) show ?thesis by simp
  next
    case up
    have "q * round_half_even p q - p = q - r"
      using p up(1) by (simp add: algebra_simps)
    with r up(2) show ?thesis by simp
  qed
qed

text \<open>
  The float operations on some inputs, as CPython computes them: \<open>1 / 3\<close> is
  \<open>0x1.5555555555555p-2\<close>, \<open>1 / 3 * 100\<close> is \<open>0x1.0aaaaaaaaaaaap+5\<close>, and
  \<open>round(1 / 3 * 100, 2)\<close> is the float of the literal \<open>33.33\<close>. For one task done
  out of 20000 the product is the float next above \<open>0.005\<close>, so the rate is \<open>0.01\<close>,
  where rounding the exact quotient half-to-even would give \<open>0.0\<close>.
\<close>

lemma float_examples:
  "float_of_ratio 1 3 = PyFloat 6004799503160661 (- 54)"
  "float_mul_int (float_of_ratio 1 3) 100 = PyFloat 4691249611844266 (- 47)"
  "float_of_ratio 3333 100 = PyFloat 4690780486883082 (- 47)"
  "float_mul_int (float_of_ratio 1 20000) 100 = PyFloat 5764607523034235 (- 60)"
  "py_round2 (float_mul_int (float_of_ratio 1 20000) 100) = float_of_ratio 1 100"
  "py_round2 (float_mul_int (float_of_ratio 1 1) 100) = float_of_ratio 100 1"
  by code_simp+

lemma one_third_rate: "py_round2 (float_mul_int (float_of_ratio 1 3) 100) = float_of_ratio 3333 100"
  by code_simp

lemma get_task_stats_ok:
  assumes "gw ''Show me all tasks'' None = Inr r"
  shows "get_task_stats gw st =
     (Inr \<lparr>total_tasks = length (get_tasks_or_empty r),
           by_status = \<lparr>TODO = count_status ''TODO'' (get_tasks_or_empty r),
                         IN_PROGRESS = count_status ''IN PROGRESS'' (get_tasks_or_empty r),
                         DONE = count_status ''DONE'' (get_tasks_or_empty r)\<rparr>,
           completion_rate =
             (if 0 < length (get_tasks_or_empty r)
              then py_round2 (float_mul_int
                     (float_of_ratio (int (count_status ''DONE'' (get_tasks_or_empty r)))
                        (int (length (get_tasks_or_empty r)))) 100)
              else PyFloat 0 0)\<rparr>,
      st\<lparr>calls := calls st @ [(''Show me all tasks'', None)]\<rparr>)"
  using assms
  by (simp add: get_task_stats_def n8n_send_message_def py_truediv_def Let_def)

lemma one_in_32_rate:
  "py_round2 (float_mul_int (float_of_ratio 1 32) 100) = PyFloat 7025615418697974 (- 51)"
  by code_simp

lemma one_third_rate_value:
  "py_round2 (float_mul_int (float_of_ratio 1 3) 100) = PyFloat 4690780486883082 (- 47)"
  by code_simp

text \<open>
  \<open>PyFloat 4690780486883082 (- 47)\<close> is the float of the literal \<open>33.33\<close> and
  \<open>PyFloat 7025615418697974 (- 51)\<close> that of \<open>3.12\<close>: each lies within half a unit in the
  last place of the decimal.
\<close>

lemma literal_values:
  "\<bar>4690780486883082 / 2 ^ 47 - (3333 / 100 :: real)\<bar> \<le> 1 / 2 ^ 48"
  "\<bar>7025615418697974 / 2 ^ 51 - (312 / 100 :: real)\<bar> \<le> 1 / 2 ^ 52"
  by simp_all

lemma count_by_status:
  "length (filter (\<lambda>t. dict_get t ''status'' = Some (JStr s)) ts)
     = length (filter (\<lambda>v. v = Some (JStr s)) (map (\<lambda>t. dict_get t ''status'') ts))"
  by (simp add: filter_map comp_def)

text \<open>
  C8. For the task list \<open>ts\<close> that the remote agent returns, the statistics are:
  \<open>total_tasks\<close> the length of \<open>ts\<close>; under \<open>by_status\<close> the numbers of tasks whose
  \<open>status\<close> is exactly \<open>"TODO"\<close>, \<open>"IN PROGRESS"\<close>, \<open>"DONE"\<close>; and \<open>completion_rate\<close> the
  float \<open>round(done / total * 100, 2)\<close> when there is a task and \<open>0.0\<close> otherwise. The
  result is never an exception: there is no division by zero. In particular the empty
  list gives 0 tasks and the rate \<open>0.0\<close>, and a list of three tasks with the statuses
  \<open>"TODO"\<close>, \<open>"IN PROGRESS"\<close>, \<open>"DONE"\<close> gives 3 tasks, one per status, and the rate
  \<open>33.33\<close>, the float \<open>4690780486883082 * 2 ^ - 47\<close>.
\<close>

theorem stats_of_returned_tasks:
  assumes "gw ''Show me all tasks'' None = Inr r"
  shows "fst (get_task_stats gw st) =
     Inr \<lparr>total_tasks = length (get_tasks_or_empty r),
          by_status =
            \<lparr>TODO = length (filter (\<lambda>t. dict_get t ''status'' = Some (JStr ''TODO''))
                              (get_tasks_or_empty r)),
             IN_PROGRESS = length (filter (\<lambda>t. dict_get t ''status'' = Some (JStr ''IN PROGRESS''))
                                     (get_tasks_or_empty r)),
             DONE = length (filter (\<lambda>t. dict_get t ''status'' = Some (JStr ''DONE''))
                              (get_tasks_or_empty r))\<rparr>,
          completion_rate =
            (if 0 < length (get_tasks_or_empty r)
             then py_round2 (float_mul_int
                    (float_of_ratio
                       (int (length (filter (\<lambda>t. dict_get t ''status'' = Some (JStr ''DONE''))
                                       (get_tasks_or_empty r))))
                       (int (length (get_tasks_or_empty r)))) 100)
             else PyFloat 0 0)\<rparr>
   \<and> (get_tasks_or_empty r = [] \<longrightarrow>
        fst (get_task_stats gw st) =
          Inr \<lparr>total_tasks = 0, by_status = \<lparr>TODO = 0, IN_PROGRESS = 0, DONE = 0\<rparr>,
               completion_rate = PyFloat 0 0\<rparr>)
   \<and> (map (\<lambda>t. dict_get t ''status'') (get_tasks_or_empty r)
          = [Some (JStr ''TODO''), Some (JStr ''IN PROGRESS''), Some (JStr ''DONE'')] \<longrightarrow>
        fst (get_task_stats gw st) =
          Inr \<lparr>total_tasks = 3, by_status = \<lparr>TODO = 1, IN_PROGRESS = 1, DONE = 1\<rparr>,
               completion_rate = PyFloat 4690780486883082 (- 47)\<rparr>)"
proof (intro conjI impI)
  show "fst (get_task_stats gw st) =
     Inr \<lparr>total_tasks = length (get_tasks_or_empty r),
          by_status =
            \<lparr>TODO = length (filter (\<lambda>t. dict_get t ''status'' = Some (JStr ''TODO''))
                              (get_tasks_or_empty r)),
             IN_PROGRESS = length (filter (\<lambda>t. dict_get t ''status'' = Some (JStr ''IN PROGRESS''))
                                     (get_tasks_or_empty r)),
             DONE = length (filter (\<lambda>t. dict_get t ''status'' = Some (JStr ''DONE''))
                              (get_tasks_or_empty r))\<rparr>,
          completion_rate =
            (if 0 < length (get_tasks_or_empty r)
             then py_round2 (float_mul_int
                    (float_of_ratio
                       (int (length (filter (\<lambda>t. dict_get t ''status'' = Some (JStr ''DONE''))
                                       (get_tasks_or_empty r))))
                       (int (length (get_tasks_or_empty r)))) 100)
             else PyFloat 0 0)\<rparr>"
    using get_task_stats_ok [where gw = gw and r = r and st = st] assms
    by (simp add: count_status_def)
next
  assume "get_tasks_or_empty r = []"
  then show "fst (get_task_stats gw st) =
          Inr \<lparr>total_tasks = 0, by_status = \<lparr>TODO = 0, IN_PROGRESS = 0, DONE = 0\<rparr>,
               completion_rate = PyFloat 0 0\<rparr>"
    using get_task_stats_ok [where gw = gw and r = r and st = st] assms
    by (simp add: count_status_def)
next
  assume three: "map (\<lambda>t. dict_get t ''status'') (get_tasks_or_empty r)
          = [Some (JStr ''TODO''), Some (JStr ''IN PROGRESS''), Some (JStr ''DONE'')]"
  then have "length (map (\<lambda>t. dict_get t ''status'') (get_tasks_or_empty r)) = 3"
    by simp
  then have n: "length (get_tasks_or_empty r) = 3"
    by simp
  have c: "count_status ''TODO'' (get_tasks_or_empty r) = 1"
    "count_status ''IN PROGRESS'' (get_tasks_or_empty r) = 1"
    "count_status ''DONE'' (get_tasks_or_empty r) = 1"
    by (simp_all add: count_status_def count_by_status three)
  show "fst (get_task_stats gw st) =
          Inr \<lparr>total_tasks = 3, by_status = \<lparr>TODO = 1, IN_PROGRESS = 1, DONE = 1\<rparr>,
               completion_rate = PyFloat 4690780486883082 (- 47)\<rparr>"
    using get_task_stats_ok [where gw = gw and r = r and st = st] assms
    by (simp add: n c one_third_rate_value)
qed

theorem stats_of_returned_tasks_witness:
  "fst (get_task_stats (example_gateway (Some [])) empty_state)
     = Inr \<lparr>total_tasks = 0, by_status = \<lparr>TODO = 0, IN_PROGRESS = 0, DONE = 0\<rparr>,
            completion_rate = PyFloat 0 0\<rparr>
   \<and> fst (get_task_stats
            (example_gateway (Some [[(''status'', JStr ''TODO'')],
                                    [(''status'', JStr ''IN PROGRESS'')],
                                    [(''status'', JStr ''DONE'')]])) empty_state)
     = Inr \<lparr>total_tasks = 3, by_status = \<lparr>TODO = 1, IN_PROGRESS = 1, DONE = 1\<rparr>,
            completion_rate = PyFloat 4690780486883082 (- 47)\<rparr>
   \<and> fst (get_task_stats
            (example_gateway (Some (replicate 31 [(''status'', JStr ''TODO'')]
                                     @ [[(''status'', JStr ''DONE'')]]))) empty_state)
     = Inr \<lparr>total_tasks = 32, by_status = \<lparr>TODO = 31, IN_PROGRESS = 0, DONE = 1\<rparr>,
            completion_rate = PyFloat 7025615418697974 (- 51)\<rparr>"
proof -
  let ?three = "[[(''status'', JStr ''TODO'')], [(''status'', JStr ''IN PROGRESS'')],
                 [(''status'', JStr ''DONE'')]]"
  let ?many = "replicate 31 [(''status'', JStr ''TODO'')] @ [[(''status'', JStr ''DONE'')]]"
  let ?r0 = "\<lparr>tasks_field = Some [], other_fields = [(''success'', JBool True)]\<rparr>"
  let ?r3 = "\<lparr>tasks_field = Some ?three, other_fields = [(''success'', JBool True)]\<rparr>"
  let ?r32 = "\<lparr>tasks_field = Some ?many, other_fields = [(''success'', JBool True)]\<rparr>"
  have none: "fst (get_task_stats (example_gateway (Some [])) empty_state)
     = Inr \<lparr>total_tasks = 0, by_status = \<lparr>TODO = 0, IN_PROGRESS = 0, DONE = 0\<rparr>,
            completion_rate = PyFloat 0 0\<rparr>"
    using stats_of_returned_tasks
      [where gw = "example_gateway (Some [])" and r = ?r0 and st = empty_state]
    by (simp add: example_gateway_def get_tasks_or_empty_def)
  have three: "fst (get_task_stats (example_gateway (Some ?three)) empty_state)
     = Inr \<lparr>total_tasks = 3, by_status = \<lparr>TODO = 1, IN_PROGRESS = 1, DONE = 1\<rparr>,
            completion_rate = PyFloat 4690780486883082 (- 47)\<rparr>"
    using stats_of_returned_tasks
      [where gw = "example_gateway (Some ?three)" and r = ?r3 and st = empty_state]
    by (simp add: example_gateway_def get_tasks_or_empty_def dict_get_def one_third_rate_value)
  have many: "fst (get_task_stats (example_gateway (Some ?many)) empty_state)
     = Inr \<lparr>total_tasks = 32, by_status = \<lparr>TODO = 31, IN_PROGRESS = 0, DONE = 1\<rparr>,
            completion_rate = py_round2 (float_mul_int (float_of_ratio 1 32) 100)\<rparr>"
    using stats_of_returned_tasks
      [where gw = "example_gateway (Some ?many)" and r = ?r32 and st = empty_state]
    by (simp add: example_gateway_def get_tasks_or_empty_def dict_get_def)
  from none three many show ?thesis by (simp add: one_in_32_rate)
qed

text \<open>
  C10. When the remote call succeeds and the answer has no \<open>"tasks"\<close> entry, the list
  request that asked (one not served from the cache) succeeds with no tasks and count 0
  and, with \<open>use_cache = True\<close>, stores the empty list under \<open>"all_tasks"\<close> for 60
  seconds; the statistics request succeeds with 0 tasks and the rate \<open>0.0\<close>.
\<close>

theorem missing_tasks_field_is_empty_list:
  assumes "tasks_field r = None"
  shows "(gw (list_message sf) None = Inr r
            \<and> (use_cache \<longrightarrow> \<not> truthy_tasks (fst (cache_get evict ''all_tasks'' t_get (cache st))))
          \<longrightarrow> fst (get_tasks gw evict sf use_cache t_get t_set st) = Inr \<lparr>tasks = [], count = 0\<rparr>
            \<and> (use_cache \<longrightarrow>
                 cache (snd (get_tasks gw evict sf use_cache t_get t_set st)) ''all_tasks''
                   = Some ([], t_set + 60 * 1000000)))
       \<and> (gw ''Show me all tasks'' None = Inr r
          \<longrightarrow> fst (get_task_stats gw st)
                = Inr \<lparr>total_tasks = 0, by_status = \<lparr>TODO = 0, IN_PROGRESS = 0, DONE = 0\<rparr>,
                       completion_rate = PyFloat 0 0\<rparr>)"
proof -
  have e: "get_tasks_or_empty r = []"
    using assms by (simp add: get_tasks_or_empty_def)
  show ?thesis
  proof (intro conjI impI)
    assume a: "gw (list_message sf) None = Inr r
            \<and> (use_cache \<longrightarrow> \<not> truthy_tasks (fst (cache_get evict ''all_tasks'' t_get (cache st))))"
    then have miss: "use_cache \<longrightarrow> \<not> truthy_tasks (fst (cache_get evict ''all_tasks'' t_get (cache st)))"
      and ok: "gw (list_message sf) None = Inr r" by simp_all
    show "fst (get_tasks gw evict sf use_cache t_get t_set st) = Inr \<lparr>tasks = [], count = 0\<rparr>"
      using get_tasks_asks(1)
          [where use_cache = use_cache and evict = evict and t_get = t_get and st = st
             and gw = gw and sf = sf and t_set = t_set] miss ok
      by (simp add: list_result_def e)
    assume use_cache
    then show "cache (snd (get_tasks gw evict sf use_cache t_get t_set st)) ''all_tasks''
                   = Some ([], t_set + 60 * 1000000)"
      using get_tasks_asks(3)
          [where use_cache = use_cache and evict = evict and t_get = t_get and st = st
             and gw = gw and sf = sf and r = r and t_set = t_set] miss ok
      by (simp add: e)
  next
    assume "gw ''Show me all tasks'' None = Inr r"
    then show "fst (get_task_stats gw st)
                = Inr \<lparr>total_tasks = 0, by_status = \<lparr>TODO = 0, IN_PROGRESS = 0, DONE = 0\<rparr>,
                       completion_rate = PyFloat 0 0\<rparr>"
      by (simp add: get_task_stats_ok e count_status_def)
  qed
qed

theorem missing_tasks_field_is_empty_list_witness:
  "fst (get_tasks (example_gateway None) True None True 0 0 empty_state)
      = Inr \<lparr>tasks = [], count = 0\<rparr>
   \<and> cache (snd (get_tasks (example_gateway None) True None True 0 0 empty_state)) ''all_tasks''
      = Some ([], 60000000)
   \<and> fst (get_tasks (example_gateway None) True None False 0 0 empty_state)
      = Inr \<lparr>tasks = [], count = 0\<rparr>
   \<and> fst (get_task_stats (example_gateway None) empty_state)
      = Inr \<lparr>total_tasks = 0, by_status = \<lparr>TODO = 0, IN_PROGRESS = 0, DONE = 0\<rparr>,
             completion_rate = PyFloat 0 0\<rparr>"
proof -
  let ?r = "\<lparr>tasks_field = None, other_fields = [(''success'', JBool True)]\<rparr>"
  have f: "tasks_field ?r = None" by simp
  have miss: "\<not> truthy_tasks (fst (cache_get True ''all_tasks'' 0 (cache empty_state)))"
    by (simp add: cache_get_def empty_state_def)
  have c: "fst (get_tasks (example_gateway None) True None True 0 0 empty_state)
             = Inr \<lparr>tasks = [], count = 0\<rparr>
         \<and> cache (snd (get_tasks (example_gateway None) True None True 0 0 empty_state)) ''all_tasks''
             = Some ([], 60000000)
         \<and> fst (get_task_stats (example_gateway None) empty_state)
             = Inr \<lparr>total_tasks = 0, by_status = \<lparr>TODO = 0, IN_PROGRESS = 0, DONE = 0\<rparr>,
                    completion_rate = PyFloat 0 0\<rparr>"
    using missing_tasks_field_is_empty_list
      [OF f, where gw = "example_gateway None" and sf = None and use_cache = True and evict = True
         and t_get = 0 and st = empty_state and t_set = 0] miss
    by (simp add: example_gateway_def)
  have n: "fst (get_tasks (example_gateway None) True None False 0 0 empty_state)
             = Inr \<lparr>tasks = [], count = 0\<rparr>"
    using missing_tasks_field_is_empty_list
      [OF f, where gw = "example_gateway None" and sf = None and use_cache = False and evict = True
         and t_get = 0 and st = empty_state and t_set = 0]
    by (simp add: example_gateway_def)
  from c n show ?thesis by simp
qed

subsection \<open>Message construction\<close>

text \<open>The messages built by the handlers are the templates of the specification.\<close>

lemma supplied_cases:
  "supplied v = (if truthy v then [the v] else [])"
  by (cases v) (simp_all add: supplied_def)

lemma list_message_spec: "list_message sf = spec_list_message sf"
  by (simp add: list_message_def spec_list_message_def supplied_cases)

lemma create_message_spec:
  "create_message task
     = spec_create_message (task_name task) (status task) (description task) (deadline task)"
  by (simp add: create_message_def spec_create_message_def supplied_cases quoted_def Let_def)

lemma join_comma_append_head: "join_comma ((a @ b) # ys) = a @ join_comma (b # ys)"
  by (cases ys) simp_all

lemma foldl_join_comma: "foldl (\<lambda>acc y. acc @ '', '' @ y) x xs = join_comma (x # xs)"
proof (induction xs arbitrary: x)
  case Nil
  show ?case by simp
next
  case (Cons y ys)
  have "foldl (\<lambda>acc y. acc @ '', '' @ y) x (y # ys)
          = foldl (\<lambda>acc y. acc @ '', '' @ y) (x @ '', '' @ y) ys"
    by (simp only: foldl_Cons)
  also have "\<dots> = join_comma ((x @ '', '' @ y) # ys)"
    by (rule Cons.IH)
  also have "\<dots> = x @ join_comma (('', '' @ y) # ys)"
    by (rule join_comma_append_head)
  also have "\<dots> = x @ '', '' @ join_comma (y # ys)"
    by (simp only: join_comma_append_head)
  also have "\<dots> = join_comma (x # y # ys)"
    by (simp only: join_comma.simps)
  finally show ?case .
qed

lemma comma_joined_join_comma: "comma_joined xs = join_comma xs"
proof (cases xs)
  case Nil
  then show ?thesis by (simp only: comma_joined.simps join_comma.simps)
next
  case (Cons x ys)
  then show ?thesis by (simp only: comma_joined.simps foldl_join_comma)
qed

lemma update_clauses_spec:
  "update_clauses u
     = map (\<lambda>s. ''status to '' @ quoted s) (supplied (status u))
       @ map (\<lambda>s. ''description to '' @ quoted s) (supplied (description u))
       @ map (\<lambda>s. ''deadline to '' @ quoted s) (supplied (deadline u))"
  by (simp add: update_clauses_def supplied_cases quoted_def Let_def)

lemma update_message_spec:
  "update_message name (update_clauses u)
     = spec_update_message name (status u) (description u) (deadline u)"
  by (simp add: update_message_def spec_update_message_def comma_joined_join_comma
      update_clauses_spec quoted_def)

lemma update_clauses_empty_iff:
  "update_clauses u = [] \<longleftrightarrow> \<not> (truthy (status u) \<or> truthy (description u) \<or> truthy (deadline u))"
  by (simp add: update_clauses_def Let_def)

lemma delete_message_spec: "delete_message name = spec_delete_message name"
  by (simp add: delete_message_def spec_delete_message_def quoted_def)


lemma create_task_calls:
  "calls (snd (create_task gw task st)) = calls st @ [(create_message task, None)]"
  by (simp add: create_task_def n8n_send_message_def split: sum.splits)

lemma update_task_calls:
  "update_clauses u \<noteq> [] \<Longrightarrow>
   calls (snd (update_task gw name u st))
     = calls st @ [(update_message name (update_clauses u), None)]"
  by (simp add: update_task_def n8n_send_message_def Let_def split: sum.splits exn.splits)

lemma delete_task_calls:
  "calls (snd (delete_task gw name st)) = calls st @ [(delete_message name, None)]"
  by (simp add: delete_task_def n8n_send_message_def split: sum.splits)

text \<open>
  C9. The message each handler sends to the remote agent is a function of the request
  and is the template of the specification: a list request that asks the agent sends
  \<open>Show me all tasks\<close>, with \<open> with status \<close> and the filter appended when a filter is
  given; a create request sends \<open>Create a new task called 'name'\<close> followed by the
  clauses for status, description and deadline, in that order, each only if the field
  is given; an update request with a field given sends \<open>Update the task 'name' - change \<close>
  followed by the clauses \<open>field to 'value'\<close> of the given fields, in the order status,
  description, deadline, joined by \<open>, \<close>; a delete request sends
  \<open>Delete the task 'name' - yes, I'm sure\<close>. A field is given when it is present and
  not the empty string.
\<close>

theorem messages_follow_templates:
  "((use_cache \<longrightarrow> \<not> truthy_tasks (fst (cache_get evict ''all_tasks'' t_get (cache st))))
      \<longrightarrow> calls (snd (get_tasks gw evict sf use_cache t_get t_set st))
            = calls st @ [(spec_list_message sf, None)])
   \<and> calls (snd (create_task gw task st))
       = calls st @ [(spec_create_message (task_name task) (status task) (description task)
                        (deadline task), None)]
   \<and> (truthy (status u) \<or> truthy (description u) \<or> truthy (deadline u)
      \<longrightarrow> calls (snd (update_task gw name u st))
            = calls st @ [(spec_update_message name (status u) (description u) (deadline u),
                           None)])
   \<and> calls (snd (delete_task gw name st)) = calls st @ [(spec_delete_message name, None)]"
proof (intro conjI impI)
  assume "use_cache \<longrightarrow> \<not> truthy_tasks (fst (cache_get evict ''all_tasks'' t_get (cache st)))"
  then show "calls (snd (get_tasks gw evict sf use_cache t_get t_set st))
               = calls st @ [(spec_list_message sf, None)]"
    by (simp add: get_tasks_asks(2) list_message_spec)
next
  show "calls (snd (create_task gw task st))
       = calls st @ [(spec_create_message (task_name task) (status task) (description task)
                        (deadline task), None)]"
    by (simp only: create_task_calls create_message_spec)
next
  assume "truthy (status u) \<or> truthy (description u) \<or> truthy (deadline u)"
  then have "update_clauses u \<noteq> []"
    by (simp add: update_clauses_empty_iff)
  then show "calls (snd (update_task gw name u st))
            = calls st @ [(spec_update_message name (status u) (description u) (deadline u),
                           None)]"
    by (simp add: update_task_calls update_message_spec)
next
  show "calls (snd (delete_task gw name st)) = calls st @ [(spec_delete_message name, None)]"
    by (simp only: delete_task_calls delete_message_spec)
qed

theorem messages_follow_templates_witness:
  "calls (snd (get_tasks (example_gateway None) True (Some ''DONE'') False 0 0 empty_state))
     = [(''Show me all tasks with status DONE'', None)]
   \<and> calls (snd (get_tasks (example_gateway None) True None True 0 0 empty_state))
     = [(''Show me all tasks'', None)]
   \<and> calls (snd (create_task (example_gateway None)
                 \<lparr>status = Some ''TODO'', description = Some ''Test task'',
                  deadline = Some ''2025-12-31'', task_name = ''New Task''\<rparr> empty_state))
     = [(''Create a new task called '' @ [CHR 0x27] @ ''New Task'' @ [CHR 0x27]
          @ '' with status '' @ [CHR 0x27] @ ''TODO'' @ [CHR 0x27]
          @ '' and description '' @ [CHR 0x27] @ ''Test task'' @ [CHR 0x27]
          @ '' with deadline '' @ [CHR 0x27] @ ''2025-12-31'' @ [CHR 0x27], None)]
   \<and> calls (snd (update_task (example_gateway None) ''Test Task''
                 \<lparr>status = Some ''IN PROGRESS'', description = None,
                  deadline = Some ''2025-12-31''\<rparr> empty_state))
     = [(''Update the task '' @ [CHR 0x27] @ ''Test Task'' @ [CHR 0x27] @ '' - change ''
          @ ''status to '' @ [CHR 0x27] @ ''IN PROGRESS'' @ [CHR 0x27] @ '', ''
          @ ''deadline to '' @ [CHR 0x27] @ ''2025-12-31'' @ [CHR 0x27], None)]
   \<and> calls (snd (delete_task (example_gateway None) ''Test Task'' empty_state))
     = [(''Delete the task '' @ [CHR 0x27] @ ''Test Task'' @ [CHR 0x27]
          @ '' - yes, I'' @ [CHR 0x27] @ ''m sure'', None)]"
proof -
  let ?gw = "example_gateway None"
  let ?task = "\<lparr>status = Some ''TODO'', description = Some ''Test task'',
                  deadline = Some ''2025-12-31'', task_name = ''New Task''\<rparr>"
  let ?u = "\<lparr>status = Some ''IN PROGRESS'', description = None, deadline = Some ''2025-12-31''\<rparr>"
  have miss: "\<not> truthy_tasks (fst (cache_get True ''all_tasks'' 0 (cache empty_state)))"
    by (simp add: cache_get_def empty_state_def)
  have c: "calls empty_state = []"
    by (simp add: empty_state_def)
  have filtered: "calls (snd (get_tasks ?gw True (Some ''DONE'') False 0 0 empty_state))
                    = [(''Show me all tasks with status DONE'', None)]"
    using messages_follow_templates
      [where use_cache = False and evict = True and t_get = 0 and st = empty_state and gw = ?gw
         and sf = "Some ''DONE''" and t_set = 0]
    by (simp add: c spec_list_message_def supplied_def)
  have rest: "calls (snd (get_tasks ?gw True None True 0 0 empty_state))
                = [(spec_list_message None, None)]
            \<and> calls (snd (create_task ?gw ?task empty_state))
                = [(spec_create_message ''New Task'' (Some ''TODO'') (Some ''Test task'')
                      (Some ''2025-12-31''), None)]
            \<and> calls (snd (update_task ?gw ''Test Task'' ?u empty_state))
                = [(spec_update_message ''Test Task'' (Some ''IN PROGRESS'') None
                      (Some ''2025-12-31''), None)]
            \<and> calls (snd (delete_task ?gw ''Test Task'' empty_state))
                = [(spec_delete_message ''Test Task'', None)]"
    using messages_follow_templates
      [where use_cache = True and evict = True and t_get = 0 and st = empty_state and gw = ?gw
         and sf = None and t_set = 0 and task = ?task and u = ?u and name = "''Test Task''"] miss
    by (simp add: c)
  have t: "spec_list_message None = ''Show me all tasks''"
    "spec_create_message ''New Task'' (Some ''TODO'') (Some ''Test task'') (Some ''2025-12-31'')
       = ''Create a new task called '' @ [CHR 0x27] @ ''New Task'' @ [CHR 0x27]
          @ '' with status '' @ [CHR 0x27] @ ''TODO'' @ [CHR 0x27]
          @ '' and description '' @ [CHR 0x27] @ ''Test task'' @ [CHR 0x27]
          @ '' with deadline '' @ [CHR 0x27] @ ''2025-12-31'' @ [CHR 0x27]"
    "spec_update_message ''Test Task'' (Some ''IN PROGRESS'') None (Some ''2025-12-31'')
       = ''Update the task '' @ [CHR 0x27] @ ''Test Task'' @ [CHR 0x27] @ '' - change ''
          @ ''status to '' @ [CHR 0x27] @ ''IN PROGRESS'' @ [CHR 0x27] @ '', ''
          @ ''deadline to '' @ [CHR 0x27] @ ''2025-12-31'' @ [CHR 0x27]"
    "spec_delete_message ''Test Task''
       = ''Delete the task '' @ [CHR 0x27] @ ''Test Task'' @ [CHR 0x27]
          @ '' - yes, I'' @ [CHR 0x27] @ ''m sure''"
    by (simp_all add: spec_list_message_def spec_create_message_def spec_update_message_def
        spec_delete_message_def supplied_def quoted_def)
  from filtered rest show ?thesis by (simp only: t)
qed

subsection \<open>The float model\<close>

text \<open>
  \<open>float_of_ratio p q\<close> has a mantissa of 53 bits and lies within half a unit in the
  last place of \<open>p / q\<close>: it is a binary64 value nearest to the quotient.
\<close>

lemma scaled_pos:
  assumes "0 < p" "0 < q"
  shows "0 < fst (scaled p q e)" "0 < snd (scaled p q e)"
  using assms by (simp_all add: scaled_def)

lemma scaled_ratio:
  assumes "0 < q"
  shows "real_of_int (fst (scaled p q e)) / real_of_int (snd (scaled p q e))
           = real_of_int p / real_of_int q * 2 powi (- e)"
proof (cases "0 \<le> e")
  case True
  then have "(2::real) powi (- e) = 1 / 2 ^ nat e"
    by (simp add: power_int_def divide_simps)
  with True show ?thesis by (simp add: scaled_def)
next
  case False
  then have "(2::real) powi (- e) = 2 ^ nat (- e)"
    by (simp add: power_int_def)
  with False show ?thesis by (simp add: scaled_def)
qed

lemma bitlen_powi_bounds:
  assumes "0 < x"
  shows "2 powi (bitlen x - 1) \<le> real_of_int x" "real_of_int x < 2 powi (bitlen x)"
proof -
  from assms have b: "1 \<le> bitlen x"
    using bitlen_eq_zero_iff [of x] bitlen_nonneg [of x] by linarith
  from bitlen_bounds [OF assms]
  have "real_of_int (2 ^ nat (bitlen x - 1)) \<le> real_of_int x" "real_of_int x < real_of_int (2 ^ nat (bitlen x))"
    by linarith+
  with b show "2 powi (bitlen x - 1) \<le> real_of_int x" "real_of_int x < 2 powi (bitlen x)"
    by (simp_all add: power_int_def)
qed


lemma ratio_bitlen_bounds:
  assumes "0 < p" "0 < q"
  shows "2 powi (bitlen p - bitlen q - 1) < real_of_int p / real_of_int q"
    and "real_of_int p / real_of_int q < 2 powi (bitlen p - bitlen q + 1)"
proof -
  note bp = bitlen_powi_bounds [OF assms(1)] and bq = bitlen_powi_bounds [OF assms(2)]
  have q: "0 < real_of_int q" using assms by simp
  have "2 powi (bitlen p - bitlen q - 1) * real_of_int q
          < 2 powi (bitlen p - bitlen q - 1) * 2 powi (bitlen q)"
    using bq(2) by (simp add: mult_strict_left_mono)
  also have "\<dots> = 2 powi (bitlen p - 1)"
    by (simp add: power_int_add [symmetric])
  also have "\<dots> \<le> real_of_int p" by (rule bp(1))
  finally show "2 powi (bitlen p - bitlen q - 1) < real_of_int p / real_of_int q"
    using q by (simp add: pos_less_divide_eq)
  have "real_of_int p < 2 powi (bitlen p)" by (rule bp(2))
  also have "\<dots> = 2 powi (bitlen p - bitlen q + 1) * 2 powi (bitlen q - 1)"
    by (simp add: power_int_add [symmetric])
  also have "\<dots> \<le> 2 powi (bitlen p - bitlen q + 1) * real_of_int q"
    using bq(1) by (simp add: mult_left_mono)
  finally show "real_of_int p / real_of_int q < 2 powi (bitlen p - bitlen q + 1)"
    using q by (simp add: pos_divide_less_eq)
qed

lemma float_of_ratio_nearest:
  assumes "0 < p" "0 < q" and res: "float_of_ratio p q = PyFloat m e"
  shows "2 ^ 52 \<le> m \<and> m < 2 ^ 53
       \<and> \<bar>real_of_int m * 2 powi e - real_of_int p / real_of_int q\<bar> \<le> 2 powi e / 2"
proof -
  define v where "v = real_of_int p / real_of_int q"
  define e0 where "e0 = bitlen p - bitlen q - 53"
  define x where "x e' = real_of_int (fst (scaled p q e')) / real_of_int (snd (scaled p q e'))" for e'
  have x: "x e' = v * 2 powi (- e')" for e'
    unfolding x_def v_def using assms(2) by (rule scaled_ratio)
  have fl: "fst (scaled p q e') div snd (scaled p q e') = \<lfloor>x e'\<rfloor>" for e'
    by (simp add: x_def floor_divide_of_int_eq)
  have ex: "e0 + 52 = bitlen p - bitlen q - 1" "e0 + 54 = bitlen p - bitlen q + 1"
    by (simp_all add: e0_def)
  have "2 powi (e0 + 52) < v"
    unfolding ex v_def using assms(1,2) by (rule ratio_bitlen_bounds(1))
  moreover have "v < 2 powi (e0 + 54)"
    unfolding ex v_def using assms(1,2) by (rule ratio_bitlen_bounds(2))
  ultimately have "2 powi (e0 + 52) * 2 powi (- e0) < v * 2 powi (- e0)"
    "v * 2 powi (- e0) < 2 powi (e0 + 54) * 2 powi (- e0)"
    by (simp_all add: mult_strict_right_mono)
  then have x0: "2 ^ 52 < x e0" "x e0 < 2 ^ 54"
    by (simp_all add: x power_int_add [symmetric])
  define e1 where "e1 = (if 2 ^ 53 \<le> \<lfloor>x e0\<rfloor> then e0 + 1 else e0)"
  have half: "x (e0 + 1) = x e0 / 2"
    by (simp add: x power_int_diff)
  have x1: "2 ^ 52 \<le> x e1" "x e1 < 2 ^ 53"
  proof -
    show "2 ^ 52 \<le> x e1"
    proof (cases "2 ^ 53 \<le> \<lfloor>x e0\<rfloor>")
      case True
      then have "2 ^ 53 \<le> x e0" by (simp add: le_floor_iff)
      with True show ?thesis by (simp add: e1_def half)
    next
      case False
      with x0 show ?thesis by (simp add: e1_def)
    qed
    show "x e1 < 2 ^ 53"
    proof (cases "2 ^ 53 \<le> \<lfloor>x e0\<rfloor>")
      case True
      with x0 show ?thesis by (simp add: e1_def half)
    next
      case False
      then have "x e0 < 2 ^ 53" by (simp add: le_floor_iff)
      with False show ?thesis by (simp add: e1_def)
    qed
  qed
  define P where "P = fst (scaled p q e1)"
  define Q where "Q = snd (scaled p q e1)"
  define m1 where "m1 = round_half_even P Q"
  have Q: "0 < Q" unfolding Q_def using assms(1,2) by (rule scaled_pos)
  have xq: "x e1 = real_of_int P / real_of_int Q" by (simp add: x_def P_def Q_def)
  have "2 * \<bar>Q * m1 - P\<bar> \<le> Q"
    unfolding m1_def using Q by (rule round_half_even_nearest)
  then have "real_of_int (2 * \<bar>Q * m1 - P\<bar>) \<le> real_of_int Q"
    by (simp only: of_int_le_iff)
  then have i: "2 * \<bar>real_of_int Q * real_of_int m1 - real_of_int P\<bar> \<le> real_of_int Q"
    by simp
  have xe: "x e1 * real_of_int Q = real_of_int P"
    using Q by (simp add: xq)
  have eq: "real_of_int Q * real_of_int m1 - real_of_int P = (real_of_int m1 - x e1) * real_of_int Q"
  proof -
    have "(real_of_int m1 - x e1) * real_of_int Q
            = real_of_int m1 * real_of_int Q - x e1 * real_of_int Q"
      by (rule left_diff_distrib)
    also have "\<dots> = real_of_int Q * real_of_int m1 - real_of_int P"
      using xe by (simp add: mult.commute)
    finally show ?thesis by (rule sym)
  qed
  have "\<bar>real_of_int Q * real_of_int m1 - real_of_int P\<bar>
          = \<bar>real_of_int m1 - x e1\<bar> * real_of_int Q"
    unfolding eq abs_mult using Q by simp
  with i have "(2 * \<bar>real_of_int m1 - x e1\<bar>) * real_of_int Q \<le> 1 * real_of_int Q"
    by simp
  then have "2 * \<bar>real_of_int m1 - x e1\<bar> \<le> 1"
    using Q by (simp only: mult_le_cancel_right)
  then have near: "\<bar>real_of_int m1 - x e1\<bar> \<le> 1 / 2"
    by simp
  have m_lo: "2 ^ 52 \<le> m1"
  proof -
    from near x1(1) have "2 ^ 52 - 1 / 2 \<le> real_of_int m1" by linarith
    then have "real_of_int (2 ^ 52 - 1) < real_of_int m1" by simp
    then show ?thesis by linarith
  qed
  have m_hi: "m1 \<le> 2 ^ 53"
  proof -
    from near x1(2) have "real_of_int m1 < 2 ^ 53 + 1 / 2" by linarith
    then have "real_of_int m1 < real_of_int (2 ^ 53 + 1)" by simp
    then show ?thesis by linarith
  qed
  have v_eq: "v = x e1 * 2 powi e1"
    by (simp add: x power_int_add [symmetric])
  have e1': "(if 2 ^ 53 \<le> fst (scaled p q e0) div snd (scaled p q e0) then e0 + 1 else e0) = e1"
    by (simp only: e1_def fl)
  have def: "float_of_ratio p q = (if m1 = 2 ^ 53 then PyFloat (2 ^ 52) (e1 + 1) else PyFloat m1 e1)"
    unfolding float_of_ratio_def Let_def e0_def [symmetric] e1' m1_def P_def Q_def
    using assms(1) by simp
  show ?thesis
  proof (cases "m1 = 2 ^ 53")
    case True
    with def res have m: "m = 2 ^ 52" and e: "e = e1 + 1" by simp_all
    have "real_of_int m * 2 powi e - v = (real_of_int m1 - x e1) * 2 powi e1"
      by (simp add: m e True v_eq power_int_add algebra_simps)
    then have "\<bar>real_of_int m * 2 powi e - v\<bar> = \<bar>real_of_int m1 - x e1\<bar> * 2 powi e1"
      by (simp add: abs_mult)
    also have "\<dots> \<le> 1 / 2 * 2 powi e1"
      using near by (simp add: mult_right_mono)
    also have "\<dots> \<le> 2 powi e / 2"
      by (simp add: e power_int_add)
    finally show ?thesis by (simp add: m v_def)
  next
    case False
    with def res have m: "m = m1" and e: "e = e1" by simp_all
    have "real_of_int m * 2 powi e - v = (real_of_int m1 - x e1) * 2 powi e1"
      by (simp add: m e v_eq algebra_simps)
    then have "\<bar>real_of_int m * 2 powi e - v\<bar> = \<bar>real_of_int m1 - x e1\<bar> * 2 powi e1"
      by (simp add: abs_mult)
    also have "\<dots> \<le> 1 / 2 * 2 powi e1"
      using near by (simp add: mult_right_mono)
    finally show ?thesis using m_lo m_hi False by (simp add: m e v_def)
  qed
qed

subsection \<open>Exceptions of the remote call\<close>

text \<open>
  \<open>update_task\<close> passes on an \<open>HTTPException\<close> of the remote call as it is and reports
  any other exception as the error 500; in both cases the cache is left alone.
\<close>

lemma update_task_remote_exception:
  assumes "update_clauses u \<noteq> []"
  shows "gw (update_message name (update_clauses u)) None = Inl (RaisedHTTPException exc s) \<Longrightarrow>
           fst (update_task gw name u st) = Inl exc"
    and "gw (update_message name (update_clauses u)) None = Inl (OtherException s) \<Longrightarrow>
           fst (update_task gw name u st)
             = Inl (HTTPException 500 (''Failed to update task: '' @ s))"
    and "gw (update_message name (update_clauses u)) None = Inl e \<Longrightarrow>
           cache (snd (update_task gw name u st)) = cache st"
  using assms
  by (simp_all add: update_task_def n8n_send_message_def Let_def split: exn.splits)

end
